theory Spec2Isabelle
  imports Main "HOL-Library.Char_ord" "HOL-Library.List_Lexorder"
begin

section \<open>Outcomes of Python calls\<close>

text \<open>
  A Python call either returns a value or raises.  Functions of the bot that can raise are
  modelled with the result type \<open>exn + 'a\<close>: \<open>Inl e\<close> is "raised e", \<open>Inr v\<close> is "returned v".
  Only the exception classes the modelled code can meet are listed.
\<close>

datatype exn =
    ClientError            \<comment> \<open>aiohttp.ClientError: connection failure, invalid URL\<close>
  | JSONDecodeError        \<comment> \<open>body is not JSON (not an aiohttp.ClientError)\<close>
  | UnableToRetrieveKeys   \<comment> \<open>\<^verbatim>\<open>Exception("Unable to retrieve keys")\<close>\<close>
  | ValueError
  | AttributeError         \<comment> \<open>attribute access on \<^verbatim>\<open>None\<close>\<close>
  | KeyError
  | IntegrityError         \<comment> \<open>primary-key or foreign-key violation reported by the store\<close>
  | OverflowError          \<comment> \<open>an integer parameter too large for the store's INTEGER\<close>

section \<open>tgbot/services/outline\_server\_api.py\<close>

subsection \<open>OutlineKey\<close>

text \<open>The frozen dataclass \<^verbatim>\<open>OutlineKey\<close>; equality and hashing are field-wise.\<close>

record OutlineKey =
  key_id :: int
  name :: string
  password :: string
  port :: int
  "method" :: string
  access_url :: string
  used_bytes :: int

subsection \<open>HTTP exchanges\<close>

text \<open>
  What one request of the aiohttp session yields: the request itself raises
  (\<open>ConnectionFailed\<close>), or a response arrives with a status and a body.  Reading the body
  with \<^verbatim>\<open>response.json()\<close> raises an \<^verbatim>\<open>aiohttp.ClientError\<close> (\<open>UnreadableBody\<close>),
  raises another exception because the text is not JSON (\<open>NotJson\<close>), or yields the decoded
  document.
\<close>

datatype 'a body = UnreadableBody | NotJson | Json 'a

datatype 'a response = ConnectionFailed | Response int "'a body"

text \<open>
  One entry of the \<^verbatim>\<open>accessKeys\<close> array, with the fields \<^verbatim>\<open>get_keys\<close> reads.  The id
  is the JSON string the server sends; \<^verbatim>\<open>int(...)\<close> is applied to it by the client.
\<close>

record access_key_json =
  json_id :: string
  json_name :: string
  json_password :: string
  json_port :: int
  json_method :: string
  json_accessUrl :: string

text \<open>
  The decoded document of \<^verbatim>\<open>GET /access-keys/\<close>: \<open>None\<close> is a document that is falsy or
  has no \<^verbatim>\<open>accessKeys\<close> entry, \<open>Some ks\<close> an object whose \<^verbatim>\<open>accessKeys\<close> entry is \<open>ks\<close>.
\<close>

type_synonym access_keys_json = "access_key_json list option"

text \<open>
  The decoded document of \<^verbatim>\<open>GET /metrics/transfer\<close>: the empty object (falsy in
  Python), a non-empty object without a \<^verbatim>\<open>bytesTransferredByUserId\<close> entry, or an
  object with that entry, a dictionary from key-id strings to byte counts.
\<close>

datatype metrics_json =
    EmptyObject
  | NoTransferEntry
  | BytesTransferredByUserId "(string \<times> int) list"

text \<open>The two answers the management endpoint at \<^verbatim>\<open>api_url\<close> gives during one \<^verbatim>\<open>get_keys\<close>.\<close>

record OutlineVPN =
  keys_response :: "access_keys_json response"
  metrics_response :: "metrics_json response"

subsection \<open>Reading a JSON body\<close>

text \<open>
  \<^verbatim>\<open>try: x = await response.json(...) except aiohttp.ClientError: log\<close> with \<^verbatim>\<open>x\<close>
  initialised to \<^verbatim>\<open>None\<close>: a ClientError leaves \<^verbatim>\<open>None\<close>, any other exception
  propagates.
\<close>

definition read_json :: "'a body \<Rightarrow> exn + 'a option" where
  "read_json b =
     (case b of
        UnreadableBody \<Rightarrow> Inr None
      | NotJson \<Rightarrow> Inl JSONDecodeError
      | Json document \<Rightarrow> Inr (Some document))"

subsection \<open>get\_transferred\_data\<close>

definition get_transferred_data :: "metrics_json response \<Rightarrow> exn + metrics_json" where
  "get_transferred_data r =
     (case r of
        ConnectionFailed \<Rightarrow> Inl ClientError
      | Response status b \<Rightarrow>
          (case (if status = 200 then read_json b else Inr None) of
             Inl e \<Rightarrow> Inl e
           | Inr None \<Rightarrow> Inl UnableToRetrieveKeys
           | Inr (Some metrics) \<Rightarrow>
               (if metrics = EmptyObject then Inl UnableToRetrieveKeys else Inr metrics)))"

subsection \<open>get\_keys\<close>

text \<open>
  The loop over \<^verbatim>\<open>server_keys["accessKeys"]\<close>.  \<open>py_int\<close> stands for Python's built-in
  \<^verbatim>\<open>int\<close> applied to a string (\<open>None\<close> when it raises ValueError).  The keyword arguments
  are evaluated in order, so a bad id raises before the metrics are consulted;
  \<^verbatim>\<open>metrics.get("bytesTransferredByUserId")\<close> is \<^verbatim>\<open>None\<close> when the entry is missing and
  \<^verbatim>\<open>.get\<close> on it raises AttributeError.  \<^verbatim>\<open>x or 0\<close> is \<open>x\<close> for an integer \<open>x\<close> and
  \<open>0\<close> for \<^verbatim>\<open>None\<close>.
\<close>

fun outline_keys ::
  "(string \<Rightarrow> int option) \<Rightarrow> metrics_json \<Rightarrow> access_key_json list \<Rightarrow> exn + OutlineKey list" where
  "outline_keys py_int metrics [] = Inr []"
| "outline_keys py_int metrics (key # keys) =
     (case py_int (json_id key) of
        None \<Rightarrow> Inl ValueError
      | Some i \<Rightarrow>
          (case metrics of
             BytesTransferredByUserId transferred \<Rightarrow>
               (case outline_keys py_int metrics keys of
                  Inl e \<Rightarrow> Inl e
                | Inr result \<Rightarrow>
                    Inr (\<lparr>key_id = i,
                          name = json_name key,
                          password = json_password key,
                          port = json_port key, method = json_method key,
                          access_url = json_accessUrl key,
                          used_bytes = (case map_of transferred (json_id key) of
                                          None \<Rightarrow> 0 | Some n \<Rightarrow> n)\<rparr> # result))
           | _ \<Rightarrow> Inl AttributeError))"

definition get_keys :: "(string \<Rightarrow> int option) \<Rightarrow> OutlineVPN \<Rightarrow> exn + OutlineKey list" where
  "get_keys py_int vpn =
     (case keys_response vpn of
        ConnectionFailed \<Rightarrow> Inl ClientError
      | Response status b \<Rightarrow>
          (case (if status = 200 then read_json b else Inr None) of
             Inl e \<Rightarrow> Inl e
           | Inr (Some (Some access_keys)) \<Rightarrow>
               (case get_transferred_data (metrics_response vpn) of
                  Inl e \<Rightarrow> Inl e
                | Inr metrics \<Rightarrow> outline_keys py_int metrics access_keys)
           | Inr _ \<Rightarrow> Inl UnableToRetrieveKeys))"

section \<open>tgbot/models/outline\_server.py\<close>

subsection \<open>Tables\<close>

text \<open>
  An address is the integer the \<^verbatim>\<open>IPAddressType\<close> column stores.  A table is the list
  of its rows; the primary-key and foreign-key constraints are checked by the statements
  below, as the store does.  The column \<^verbatim>\<open>name\<close> of a server is the field
  \<open>server_name\<close>, since \<open>name\<close> is the field of a key.  The table \<^verbatim>\<open>user_key\<close> is
  declared by the module and written by no function of the repository; it stays empty
  and is left out.
\<close>

type_synonym ip_address = nat

record OutlineServer =
  ip :: ip_address
  url :: string
  server_name :: string
  is_active :: bool

record ServerKey = OutlineKey +
  server_ip :: ip_address

record database =
  outline_server :: "OutlineServer list"
  server_key :: "ServerKey list"

definition server_read :: "database \<Rightarrow> ip_address option \<Rightarrow> OutlineServer option" where
  "server_read db ip_kw =
     (case ip_kw of
        None \<Rightarrow> None
      | Some a \<Rightarrow> find (\<lambda>s. ip s = a) (outline_server db))"

text \<open>\<^verbatim>\<open>select(ServerKey).where(server_ip == ...).order_by(ServerKey.name)\<close>\<close>

definition server_key_list :: "database \<Rightarrow> ip_address option \<Rightarrow> ServerKey list" where
  "server_key_list db server_ip_kw =
     (case server_ip_kw of
        None \<Rightarrow> []
      | Some a \<Rightarrow> sort_key name (filter (\<lambda>k. server_ip k = a) (server_key db)))"

subsection \<open>server\_key\_sync\<close>

text \<open>The \<^verbatim>\<open>OutlineKey(...)\<close> built from a persisted row, field by field.\<close>

definition db_key :: "ServerKey \<Rightarrow> OutlineKey" where
  "db_key key =
     \<lparr>key_id = key_id key,
      name = name key,
      password = password key,
      port = port key, method = method key,
      access_url = access_url key,
      used_bytes = used_bytes key\<rparr>"

text \<open>
  The three write sets.  A Python \<^verbatim>\<open>set\<close> of frozen dataclasses holds each value once;
  its iteration order is not specified, and the model iterates in list order.
\<close>

definition insert_row :: "ip_address \<Rightarrow> OutlineKey \<Rightarrow> ServerKey" where
  "insert_row a key =
     \<lparr>key_id = key_id key,
      name = name key,
      password = password key,
      port = port key, method = method key,
      access_url = access_url key,
      used_bytes = used_bytes key,
      server_ip = a\<rparr>"

definition insert_values :: "ip_address \<Rightarrow> OutlineKey list \<Rightarrow> OutlineKey list \<Rightarrow> ServerKey list" where
  "insert_values a db_keys vpn_keys =
     map (insert_row a)
         (remdups (filter (\<lambda>k. key_id k \<notin> set (map key_id db_keys)) vpn_keys))"

definition keys_to_delete :: "OutlineKey list \<Rightarrow> OutlineKey list \<Rightarrow> OutlineKey list" where
  "keys_to_delete db_keys vpn_keys =
     remdups (filter (\<lambda>k. key_id k \<notin> set (map key_id vpn_keys)) db_keys)"

text \<open>\<^verbatim>\<open>set(vpn_keys) - set(keys_to_delete) - set(db_keys)\<close>\<close>

definition keys_to_update :: "OutlineKey list \<Rightarrow> OutlineKey list \<Rightarrow> OutlineKey list" where
  "keys_to_update db_keys vpn_keys =
     filter (\<lambda>k. k \<notin> set db_keys)
       (filter (\<lambda>k. k \<notin> set (keys_to_delete db_keys vpn_keys)) (remdups vpn_keys))"

text \<open>
  The statements a session executes.  \<open>Update a i key\<close> is the update of the row
  \<open>(a, i)\<close> whose values dictionary holds the six non-id fields of \<open>key\<close>.
\<close>

datatype statement =
    Insert "ServerKey list"
  | Delete ip_address int
  | Update ip_address int OutlineKey

definition primary_key :: "ServerKey \<Rightarrow> ip_address \<times> int" where
  "primary_key row = (server_ip row, key_id row)"

text \<open>The \<^verbatim>\<open>.values({...})\<close> of the update statement applied to one row.\<close>

definition update_values :: "OutlineKey \<Rightarrow> ServerKey \<Rightarrow> ServerKey" where
  "update_values key row =
     row\<lparr>name := name key,
         password := password key,
         port := port key, method := method key,
         access_url := access_url key,
         used_bytes := used_bytes key\<rparr>"

text \<open>
  The integer columns (\<^verbatim>\<open>Integer\<close>, and \<^verbatim>\<open>IPAddressType\<close> over it) hold signed 64-bit
  integers: \<^verbatim>\<open>MAX_SQLITE_INT = 2 ** 63 - 1\<close> in tgbot/models/base.py.  Python integers
  are unbounded, and binding one outside that range as a parameter of a statement raises
  OverflowError before the statement runs.
\<close>

definition MAX_SQLITE_INT :: int where
  "MAX_SQLITE_INT = 2 ^ 63 - 1"

definition storable :: "int \<Rightarrow> bool" where
  "storable i = (- MAX_SQLITE_INT - 1 \<le> i \<and> i \<le> MAX_SQLITE_INT)"

text \<open>The integer fields of a key, and of a row, are all storable.\<close>

definition storable_key :: "OutlineKey \<Rightarrow> bool" where
  "storable_key key = (storable (key_id key) \<and> storable (port key) \<and> storable (used_bytes key))"

definition storable_row :: "ServerKey \<Rightarrow> bool" where
  "storable_row row =
     (storable (int (server_ip row)) \<and> storable (key_id row) \<and> storable (port row)
      \<and> storable (used_bytes row))"

text \<open>
  One statement.  Its integer parameters are bound first: the columns of every row of an
  insert, the two key columns of the \<^verbatim>\<open>where\<close> of a delete or an update, and the
  \<^verbatim>\<open>port\<close> and \<^verbatim>\<open>used_bytes\<close> of the values of an update.  Then the store checks the
  primary key and the foreign key of an insert.
\<close>

fun execute :: "database \<Rightarrow> statement \<Rightarrow> exn + database" where
  "execute db (Insert rows) =
     (if \<not> list_all storable_row rows then Inl OverflowError
      else if distinct (map primary_key rows)
         \<and> list_all (\<lambda>row. primary_key row \<notin> set (map primary_key (server_key db))) rows
         \<and> list_all (\<lambda>row. server_ip row \<in> set (map ip (outline_server db))) rows
      then Inr (db\<lparr>server_key := server_key db @ rows\<rparr>)
      else Inl IntegrityError)"
| "execute db (Delete a i) =
     (if storable (int a) \<and> storable i
      then Inr (db\<lparr>server_key :=
                  filter (\<lambda>row. \<not> (server_ip row = a \<and> key_id row = i)) (server_key db)\<rparr>)
      else Inl OverflowError)"
| "execute db (Update a i key) =
     (if storable (int a) \<and> storable i \<and> storable (port key) \<and> storable (used_bytes key)
      then Inr (db\<lparr>server_key :=
                  map (\<lambda>row. if server_ip row = a \<and> key_id row = i then update_values key row else row)
                      (server_key db)\<rparr>)
      else Inl OverflowError)"

text \<open>
  The statements of one session in order; the first that raises ends the block, and the
  session is left without a commit.
\<close>

fun execute_all :: "database \<Rightarrow> statement list \<Rightarrow> exn + database" where
  "execute_all db [] = Inr db"
| "execute_all db (s # ss) =
     (case execute db s of
        Inl e \<Rightarrow> Inl e
      | Inr db' \<Rightarrow> execute_all db' ss)"

definition sync_statements :: "ip_address \<Rightarrow> OutlineKey list \<Rightarrow> OutlineKey list \<Rightarrow> statement list" where
  "sync_statements a db_keys vpn_keys =
     (if insert_values a db_keys vpn_keys \<noteq> [] then [Insert (insert_values a db_keys vpn_keys)] else [])
     @ map (\<lambda>key. Delete a (key_id key)) (keys_to_delete db_keys vpn_keys)
     @ map (\<lambda>key. Update a (key_id key) key) (keys_to_update db_keys vpn_keys)"

text \<open>
  The body of the \<^verbatim>\<open>try\<close> up to the session: the remote fetch, the read of the persisted
  keys and the statements computed from both.
\<close>

definition issued_statements ::
  "(string \<Rightarrow> int option) \<Rightarrow> database \<Rightarrow> ip_address \<Rightarrow> OutlineVPN \<Rightarrow> exn + statement list" where
  "issued_statements py_int db a vpn =
     (case get_keys py_int vpn of
        Inl e \<Rightarrow> Inl e
      | Inr vpn_keys \<Rightarrow>
          Inr (sync_statements a (map db_key (server_key_list db (Some a))) vpn_keys))"

datatype sync_result = PyFalse | KeyList "ServerKey list"

text \<open>
  \<^verbatim>\<open>except Exception\<close> logs, and \<^verbatim>\<open>finally: return\<close> replaces whatever the block
  did, a raised exception included, by the list read after it.
\<close>

definition server_key_sync ::
  "(string \<Rightarrow> int option) \<Rightarrow> database \<Rightarrow> ip_address option \<Rightarrow> OutlineVPN
     \<Rightarrow> database \<times> (exn + sync_result)" where
  "server_key_sync py_int db server_ip_kw vpn =
     (case server_ip_kw of
        None \<Rightarrow> (db, Inr PyFalse)
      | Some a \<Rightarrow>
          (case server_read db (Some a) of
             None \<Rightarrow> (db, Inr PyFalse)
           | Some server \<Rightarrow>
               (let db' = (case issued_statements py_int db a vpn of
                             Inl e \<Rightarrow> db
                           | Inr statements \<Rightarrow>
                               (case execute_all db statements of
                                  Inl e \<Rightarrow> db
                                | Inr committed \<Rightarrow> committed))
                in (db', Inr (KeyList (server_key_list db' (Some a)))))))"

section \<open>tgbot/services/outline\_server\_api.py: requests with a path per key\<close>

text \<open>
  \<^verbatim>\<open>str(n)\<close> for an integer, as an f-string renders \<^verbatim>\<open>{key_id}\<close>: decimal digits, with a
  minus sign for a negative number.
\<close>

fun str_nat :: "nat \<Rightarrow> string" where
  "str_nat n =
     (if n < 10 then [''0123456789'' ! n]
      else str_nat (n div 10) @ [''0123456789'' ! (n mod 10)])"

declare str_nat.simps [simp del]

definition str_int :: "int \<Rightarrow> string" where
  "str_int i = (if i < 0 then CHR ''-'' # str_nat (nat (- i)) else str_nat (nat i))"

text \<open>
  A request as the client hands it to the aiohttp session, and the session as the function
  that answers it.  \<open>json_body\<close> is the \<^verbatim>\<open>json=\<close> argument: the new name of a rename, the
  byte limit of a data limit, nothing for a delete.
\<close>

datatype json_body = NoBody | NameBody string | LimitBody int

record http_request =
  verb :: string
  request_url :: string
  json_body :: json_body

type_synonym client_session = "http_request \<Rightarrow> unit response"

text \<open>\<^verbatim>\<open>self.__keys_url = f"{api_url}/access-keys/"\<close>\<close>

definition keys_url :: "string \<Rightarrow> string" where
  "keys_url api_url = api_url @ ''/access-keys/''"

text \<open>\<^verbatim>\<open>async with self.session.delete(f"{self.__keys_url}/{key_id}", ...)\<close>\<close>

definition delete_key_request :: "string \<Rightarrow> int \<Rightarrow> http_request" where
  "delete_key_request api_url i =
     \<lparr>verb = ''DELETE'', request_url = keys_url api_url @ ''/'' @ str_int i, json_body = NoBody\<rparr>"

definition delete_key :: "client_session \<Rightarrow> string \<Rightarrow> int \<Rightarrow> exn + bool" where
  "delete_key session api_url i =
     (case session (delete_key_request api_url i) of
        ConnectionFailed \<Rightarrow> Inl ClientError
      | Response status b \<Rightarrow> Inr (status = 204))"

text \<open>\<^verbatim>\<open>async with self.session.put(f"{self.__keys_url}/{key_id}/name", json=data, ...)\<close>\<close>

definition rename_key_request :: "string \<Rightarrow> int \<Rightarrow> string \<Rightarrow> http_request" where
  "rename_key_request api_url i new_name =
     \<lparr>verb = ''PUT'', request_url = keys_url api_url @ ''/'' @ str_int i @ ''/name'',
      json_body = NameBody new_name\<rparr>"

definition rename_key :: "client_session \<Rightarrow> string \<Rightarrow> int \<Rightarrow> string \<Rightarrow> exn + bool" where
  "rename_key session api_url i new_name =
     (case session (rename_key_request api_url i new_name) of
        ConnectionFailed \<Rightarrow> Inl ClientError
      | Response status b \<Rightarrow> Inr (status = 204))"

text \<open>
  \<^verbatim>\<open>async with self.session.put(f"self.__keys_url/{key_id}/data-limit", json=data, ...)\<close>:
  in this f-string only \<^verbatim>\<open>{key_id}\<close> is a replacement field; \<^verbatim>\<open>self.__keys_url\<close> stands
  outside braces and is literal text.
\<close>

definition add_data_limit_request :: "string \<Rightarrow> int \<Rightarrow> int \<Rightarrow> http_request" where
  "add_data_limit_request api_url i limit_bytes =
     \<lparr>verb = ''PUT'', request_url = ''self.__keys_url/'' @ str_int i @ ''/data-limit'',
      json_body = LimitBody limit_bytes\<rparr>"

definition add_data_limit :: "client_session \<Rightarrow> string \<Rightarrow> int \<Rightarrow> int \<Rightarrow> exn + bool" where
  "add_data_limit session api_url i limit_bytes =
     (case session (add_data_limit_request api_url i limit_bytes) of
        ConnectionFailed \<Rightarrow> Inl ClientError
      | Response status b \<Rightarrow> Inr (status = 204))"

section \<open>tgbot/models/outline\_server.py: servers\_list and server\_key\_delete\<close>

subsection \<open>servers\_list\<close>

text \<open>
  The Python expression \<^verbatim>\<open>OutlineServer.is_active is b\<close> for a bool literal \<open>b\<close>: the class
  attribute is the mapped column object, which is never the object \<^verbatim>\<open>True\<close> or
  \<^verbatim>\<open>False\<close>, so the identity test is \<^verbatim>\<open>False\<close> for every row and every \<open>b\<close>.
\<close>

definition is_active_is :: "bool \<Rightarrow> bool" where
  "is_active_is b = False"

text \<open>
  \<^verbatim>\<open>.where(c)\<close> with a Python constant \<open>c\<close> keeps a row exactly when \<open>c\<close> holds.  The
  keyword \<^verbatim>\<open>mode\<close> is \<open>None\<close> when it is not passed; a missing or empty mode is
  \<^verbatim>\<open>'all'\<close>.
\<close>

definition servers_list :: "database \<Rightarrow> string option \<Rightarrow> OutlineServer list" where
  "servers_list db mode_kw =
     (let mode = (case mode_kw of None \<Rightarrow> ''all'' | Some m \<Rightarrow> if m = [] then ''all'' else m)
      in if mode = ''active'' then filter (\<lambda>server. is_active_is True) (outline_server db)
         else if mode = ''inactive'' then filter (\<lambda>server. is_active_is False) (outline_server db)
         else outline_server db)"

subsection \<open>server\_key\_delete\<close>

text \<open>
  The keywords \<^verbatim>\<open>server_ip\<close> and \<^verbatim>\<open>key_id\<close> are \<open>None\<close> when not passed.  The guard
  returns only when both are falsy (\<^verbatim>\<open>and\<close>); a key id of 0 is falsy.  After the guard
  \<^verbatim>\<open>kwargs['server_ip']\<close> and \<^verbatim>\<open>kwargs['key_id']\<close> raise KeyError for a keyword that
  was not passed.  \<^verbatim>\<open>result.rowcount\<close> is the number of rows the delete removed.
\<close>

definition server_key_delete ::
  "database \<Rightarrow> client_session \<Rightarrow> ip_address option \<Rightarrow> int option \<Rightarrow> database \<times> (exn + bool)" where
  "server_key_delete db session server_ip_kw key_id_kw =
     (if server_ip_kw = None \<and> (key_id_kw = None \<or> key_id_kw = Some 0) then (db, Inr False)
      else
        (case server_ip_kw of
           None \<Rightarrow> (db, Inl KeyError)
         | Some a \<Rightarrow>
             (case server_read db (Some a) of
                None \<Rightarrow> (db, Inr False)
              | Some server \<Rightarrow>
                  (case key_id_kw of
                     None \<Rightarrow> (db, Inl KeyError)
                   | Some i \<Rightarrow>
                       (case delete_key session (url server) i of
                          Inl e \<Rightarrow> (db, Inl e)
                        | Inr deleted \<Rightarrow>
                            (if \<not> deleted then (db, Inr False)
                             else
                               (let rows = filter (\<lambda>row. \<not> (server_ip row = a \<and> key_id row = i))
                                             (server_key db);
                                    rowcount = length (server_key db) - length rows
                                in (db\<lparr>server_key := rows\<rparr>, Inr (rowcount \<noteq> 0)))))))))"

section \<open>tgbot/handlers/private/manage\_outline\_server.py: the new-server dialogue\<close>

text \<open>
  The states of the \<^verbatim>\<open>ManageServer\<close> group.  A conversation is in one of them or in no
  state at all (\<open>None\<close>, idle).
\<close>

datatype ManageServer =
    enter_name | update_name | enter_ip | update_ip
  | enter_url | update_url | enter_key_name | update_key_name

text \<open>
  The FSM context of one (chat, user) scope: the state tag and the data dictionary.  The
  handlers store strings (names, addresses, urls) and integers (message and chat ids).
\<close>

datatype py_value = Str string | Int int

record FSMContext =
  state :: "ManageServer option"
  data :: "string \<rightharpoonup> py_value"

text \<open>
  What a handler sends with \<^verbatim>\<open>message.answer\<close>, by prompt and the values formatted into
  it; the wording of a prompt is not modelled.
\<close>

datatype answer =
    PleaseEnterServerName
  | PleaseEnterServerIP string
  | WrongIPAddress
  | PleaseEnterServerUrl py_value string

text \<open>
  A handler takes the context and \<^verbatim>\<open>message.text\<close> and returns the context it leaves
  together with its answers, or raises; a handler that raises has saved nothing.
  \<^verbatim>\<open>state.finish()\<close> resets the state and clears the data.
\<close>

definition new_server :: "FSMContext \<Rightarrow> string \<Rightarrow> exn + FSMContext \<times> answer list" where
  "new_server ctx text = Inr (\<lparr>state = Some enter_name, data = Map.empty\<rparr>, [PleaseEnterServerName])"

text \<open>\<open>strip\<close> stands for Python's \<^verbatim>\<open>str.strip()\<close>.\<close>

definition enter_server_name ::
  "(string \<Rightarrow> string) \<Rightarrow> FSMContext \<Rightarrow> string \<Rightarrow> exn + FSMContext \<times> answer list" where
  "enter_server_name strip ctx text =
     Inr (ctx\<lparr>data := (data ctx)(''server_name'' \<mapsto> Str (strip text)), state := Some enter_ip\<rparr>,
          [PleaseEnterServerIP (strip text)])"

text \<open>
  \<open>ip_address\<close> stands for \<^verbatim>\<open>ipaddress.ip_address\<close> on a string (\<open>None\<close> when it raises
  ValueError) and \<open>str\<close> for \<^verbatim>\<open>str\<close> of the address object.  The parse comes first:
  when it raises, the data proxy was never opened and the \<^verbatim>\<open>except ValueError\<close> branch
  answers, sets the state \<^verbatim>\<open>enter_ip\<close> and returns.  Inside the proxy
  \<^verbatim>\<open>data['server_name']\<close> raises KeyError when no name is stored; a KeyError is not a
  ValueError and leaves the handler, and the proxy saves nothing.
\<close>

definition enter_server_ip ::
  "(string \<Rightarrow> 'addr option) \<Rightarrow> ('addr \<Rightarrow> string) \<Rightarrow> FSMContext \<Rightarrow> string
     \<Rightarrow> exn + FSMContext \<times> answer list" where
  "enter_server_ip ip_address str ctx text =
     (case ip_address text of
        None \<Rightarrow> Inr (ctx\<lparr>state := Some enter_ip\<rparr>, [WrongIPAddress])
      | Some address \<Rightarrow>
          (case data ctx ''server_name'' of
             None \<Rightarrow> Inl KeyError
           | Some stored_name \<Rightarrow>
               Inr (ctx\<lparr>data := (data ctx)(''server_ip'' \<mapsto> Str (str address)),
                        state := Some enter_url\<rparr>,
                    [PleaseEnterServerUrl stored_name (str address)])))"

subsection \<open>The table a committed session leaves\<close>

text \<open>
  Two derived notions used to state what the session computes: the effect of a sequence of
  update statements on one row, and the table after the insert, the deletes and the updates.
  The lemmas \<open>execute_all_updates\<close> and \<open>execute_sync_statements\<close> below prove that the
  statements of \<open>sync_statements\<close> compute exactly these.
\<close>

definition apply_updates :: "ip_address \<Rightarrow> OutlineKey list \<Rightarrow> ServerKey \<Rightarrow> ServerKey" where
  "apply_updates a ks row =
     fold (\<lambda>key r. if server_ip r = a \<and> key_id r = key_id key then update_values key r else r) ks row"


definition synced_table :: "database \<Rightarrow> ip_address \<Rightarrow> OutlineKey list \<Rightarrow> ServerKey list" where
  "synced_table db a vpn_keys =
     (let db_keys = map db_key (server_key_list db (Some a))
      in map (apply_updates a (keys_to_update db_keys vpn_keys))
           (filter (\<lambda>row. \<not> (server_ip row = a
                              \<and> key_id row \<in> key_id ` set (keys_to_delete db_keys vpn_keys)))
              (server_key db @ insert_values a db_keys vpn_keys)))"


subsection \<open>Notions used to state the claims\<close>

text \<open>
  A fetch that fails in the sense of the specification: the request raises (network error),
  the status is outside 200..299, or the body cannot be read as JSON.
\<close>

definition fetch_fails :: "'a response \<Rightarrow> bool" where
  "fetch_fails r =
     (case r of
        ConnectionFailed \<Rightarrow> True
      | Response status b \<Rightarrow>
          \<not> (200 \<le> status \<and> status < 300) \<or> (case b of Json document \<Rightarrow> False | _ \<Rightarrow> True))"

text \<open>The key ids a statement writes to.\<close>

fun written_ids :: "statement \<Rightarrow> int list" where
  "written_ids (Insert rows) = map key_id rows"
| "written_ids (Delete a i) = [i]"
| "written_ids (Update a i key) = [i]"

text \<open>
  What the store guarantees of the rows it holds: the primary key of \<^verbatim>\<open>server_key\<close> is
  unique, and every integer column holds a storable integer.
\<close>

definition valid_store :: "database \<Rightarrow> bool" where
  "valid_store db =
     (distinct (map primary_key (server_key db))
      \<and> list_all (\<lambda>server. storable (int (ip server))) (outline_server db)
      \<and> list_all storable_row (server_key db))"

section \<open>tgbot/models/telegram\_object.py\<close>

text \<open>
  The tables of this module, rows as lists as before.  The columns \<^verbatim>\<open>id\<close> and \<^verbatim>\<open>type\<close>
  are named after their table here; the timestamp columns are left out.  The tables
  \<^verbatim>\<open>user\<close>, \<^verbatim>\<open>chat\<close> and \<^verbatim>\<open>chat_member\<close> are the fields \<open>users\<close>, \<open>chats\<close> and
  \<open>chat_members\<close>.  These tables and
  those of \<open>database\<close> live in one store, and neither module touches the other's tables.
\<close>

record User =
  user_id :: int
  is_bot :: bool
  first_name :: string
  last_name :: "string option"
  username :: "string option"
  mention :: string
  lang_code :: "string option"
  role :: string

record Chat =
  chat_id :: int
  chat_type :: string
  title :: "string option"
  chat_username :: "string option"

record ChatMember =
  member_chat_id :: int
  member_user_id :: int
  status :: string

record telegram_db =
  users :: "User list"
  chats :: "Chat list"
  chat_members :: "ChatMember list"

text \<open>
  Every function below runs its statement in a session of its own and commits, so each
  returns the store it leaves together with its value or exception.  A keyword that is 0
  or an empty string is falsy and makes the guard return early.
\<close>

definition user_read :: "telegram_db \<Rightarrow> int \<Rightarrow> User option" where
  "user_read db i = (if i = 0 then None else find (\<lambda>u. user_id u = i) (users db))"

definition user_create :: "telegram_db \<Rightarrow> User \<Rightarrow> telegram_db \<times> (exn + User option)" where
  "user_create db kwargs =
     (if user_id kwargs = 0 \<or> first_name kwargs = [] then (db, Inr None)
      else if user_id kwargs \<in> set (map user_id (users db)) then (db, Inl IntegrityError)
      else (db\<lparr>users := users db @ [kwargs]\<rparr>,
            Inr (user_read (db\<lparr>users := users db @ [kwargs]\<rparr>) (user_id kwargs))))"

text \<open>The update of the middleware passes every column of \<open>kwargs\<close> except the role.\<close>

definition user_update :: "telegram_db \<Rightarrow> User \<Rightarrow> telegram_db \<times> (exn + User option)" where
  "user_update db kwargs =
     (if user_id kwargs = 0 then (db, Inr None)
      else
        (let db' = db\<lparr>users := map (\<lambda>u. if user_id u = user_id kwargs
                                          then kwargs\<lparr>role := role u\<rparr> else u) (users db)\<rparr>
         in (db', Inr (user_read db' (user_id kwargs)))))"

definition chat_read :: "telegram_db \<Rightarrow> int \<Rightarrow> Chat option" where
  "chat_read db i = (if i = 0 then None else find (\<lambda>c. chat_id c = i) (chats db))"

definition chat_create :: "telegram_db \<Rightarrow> Chat \<Rightarrow> telegram_db \<times> (exn + Chat option)" where
  "chat_create db kwargs =
     (if chat_id kwargs = 0 \<or> chat_type kwargs = [] then (db, Inr None)
      else if chat_id kwargs \<in> set (map chat_id (chats db)) then (db, Inl IntegrityError)
      else (db\<lparr>chats := chats db @ [kwargs]\<rparr>,
            Inr (chat_read (db\<lparr>chats := chats db @ [kwargs]\<rparr>) (chat_id kwargs))))"

definition chat_update :: "telegram_db \<Rightarrow> Chat \<Rightarrow> telegram_db \<times> (exn + Chat option)" where
  "chat_update db kwargs =
     (if chat_id kwargs = 0 then (db, Inr None)
      else
        (let db' = db\<lparr>chats := map (\<lambda>c. if chat_id c = chat_id kwargs then kwargs else c) (chats db)\<rparr>
         in (db', Inr (chat_read db' (chat_id kwargs)))))"

definition chat_member_read :: "telegram_db \<Rightarrow> int \<Rightarrow> int \<Rightarrow> ChatMember option" where
  "chat_member_read db c u =
     (if c = 0 \<or> u = 0 then None
      else find (\<lambda>m. member_chat_id m = c \<and> member_user_id m = u) (chat_members db))"

text \<open>
  The insert meets the primary key (chat, user) and the two foreign keys, which the store
  enforces.
\<close>

definition chat_member_create ::
  "telegram_db \<Rightarrow> int \<Rightarrow> int \<Rightarrow> string \<Rightarrow> telegram_db \<times> (exn + ChatMember option)" where
  "chat_member_create db c u s =
     (if c = 0 \<or> u = 0 \<or> s = [] then (db, Inr None)
      else if (c, u) \<in> set (map (\<lambda>m. (member_chat_id m, member_user_id m)) (chat_members db))
              \<or> c \<notin> set (map chat_id (chats db)) \<or> u \<notin> set (map user_id (users db))
      then (db, Inl IntegrityError)
      else
        (let db' = db\<lparr>chat_members := chat_members db
                          @ [\<lparr>member_chat_id = c, member_user_id = u, status = s\<rparr>]\<rparr>
         in (db', Inr (chat_member_read db' c u))))"

definition chat_member_update ::
  "telegram_db \<Rightarrow> int \<Rightarrow> int \<Rightarrow> string \<Rightarrow> telegram_db \<times> (exn + ChatMember option)" where
  "chat_member_update db c u s =
     (if c = 0 \<or> u = 0 then (db, Inr None)
      else
        (let db' = db\<lparr>chat_members :=
                         map (\<lambda>m. if member_chat_id m = c \<and> member_user_id m = u
                                   then m\<lparr>status := s\<rparr> else m) (chat_members db)\<rparr>
         in (db', Inr (chat_member_read db' c u))))"

definition chat_member_delete :: "telegram_db \<Rightarrow> int \<Rightarrow> int \<Rightarrow> telegram_db \<times> (exn + bool)" where
  "chat_member_delete db c u =
     (if c = 0 \<or> u = 0 then (db, Inr False)
      else
        (let rows = filter (\<lambda>m. \<not> (member_chat_id m = c \<and> member_user_id m = u)) (chat_members db)
         in (db\<lparr>chat_members := rows\<rparr>, Inr (length rows \<noteq> length (chat_members db)))))"

section \<open>tgbot/middlewares/dbmiddleware.py\<close>

text \<open>
  A message as the middleware reads it: the sender, the chat and the bot's own id.  The
  sender and the chat are held in the shape of their rows; the sender's \<open>role\<close> is not
  read (the insert passes \<^verbatim>\<open>role='user'\<close>, the update passes no role).
  \<open>sender_member\<close> and \<open>bot_member\<close> are what the two calls of
  \<^verbatim>\<open>telegram_chat.get_member\<close> do: return a member, of which only the status is read,
  or raise.
\<close>

record Message =
  from_user :: User
  message_chat :: Chat
  bot_id :: int

record middleware_data =
  data_user :: "User option"
  data_chat :: "Chat option"
  data_chat_member :: "ChatMember option"

text \<open>Sequencing of two awaited calls: an exception of the first ends the coroutine.\<close>

definition then_do ::
  "'s \<times> (exn + 'a) \<Rightarrow> ('s \<Rightarrow> 'a \<Rightarrow> 's \<times> (exn + 'b)) \<Rightarrow> 's \<times> (exn + 'b)" where
  "then_do r f = (case r of (s, Inl e) \<Rightarrow> (s, Inl e) | (s, Inr v) \<Rightarrow> f s v)"

text \<open>\<^verbatim>\<open>try: m = await telegram_chat.get_member(...) except Exception: log\<close>, with \<^verbatim>\<open>m = None\<close> before.\<close>

definition get_member :: "exn + string \<Rightarrow> string option" where
  "get_member r = (case r of Inl e \<Rightarrow> None | Inr member_status \<Rightarrow> Some member_status)"

text \<open>
  The \<^verbatim>\<open>if\<close>/\<^verbatim>\<open>elif\<close>/\<^verbatim>\<open>else\<close> on the sender's membership.  The \<^verbatim>\<open>else\<close> branch
  evaluates \<^verbatim>\<open>telegram_chat_member.status\<close>, which raises AttributeError when
  \<^verbatim>\<open>telegram_chat_member\<close> is \<^verbatim>\<open>None\<close>.
\<close>

definition sender_membership ::
  "telegram_db \<Rightarrow> int \<Rightarrow> int \<Rightarrow> string option \<Rightarrow> telegram_db \<times> (exn + ChatMember option)" where
  "sender_membership db c u telegram_chat_member =
     (let db_chat_member = chat_member_read db c u
      in if db_chat_member = None \<and> telegram_chat_member \<noteq> None
         then (case telegram_chat_member of
                 None \<Rightarrow> (db, Inl AttributeError)
               | Some member_status \<Rightarrow> chat_member_create db c u member_status)
         else if db_chat_member \<noteq> None \<and> telegram_chat_member = None
         then then_do (chat_member_delete db c u) (\<lambda>db' deleted. (db', Inr (chat_member_read db' c u)))
         else (case telegram_chat_member of
                 None \<Rightarrow> (db, Inl AttributeError)
               | Some member_status \<Rightarrow> chat_member_update db c u member_status))"

text \<open>The same for the bot account; the values of its calls are not kept.\<close>

definition bot_membership ::
  "telegram_db \<Rightarrow> int \<Rightarrow> int \<Rightarrow> string option \<Rightarrow> telegram_db \<times> (exn + unit)" where
  "bot_membership db c u bot_chat_member =
     (let db_bot_chat_member = chat_member_read db c u
      in if db_bot_chat_member = None \<and> bot_chat_member \<noteq> None
         then (case bot_chat_member of
                 None \<Rightarrow> (db, Inl AttributeError)
               | Some member_status \<Rightarrow>
                   then_do (chat_member_create db c u member_status) (\<lambda>db' created. (db', Inr ())))
         else if db_bot_chat_member \<noteq> None \<and> bot_chat_member = None
         then then_do (chat_member_delete db c u) (\<lambda>db' deleted. (db', Inr ()))
         else (case bot_chat_member of
                 None \<Rightarrow> (db, Inl AttributeError)
               | Some member_status \<Rightarrow>
                   then_do (chat_member_update db c u member_status) (\<lambda>db' updated. (db', Inr ()))))"

text \<open>
  \<^verbatim>\<open>DBMiddleware.pre_process\<close> for an object that is a message.  On a normal return the
  three entries of \<^verbatim>\<open>data\<close> are set; an exception leaves the coroutine before that.
\<close>

definition pre_process ::
  "telegram_db \<Rightarrow> Message \<Rightarrow> exn + string \<Rightarrow> exn + string
     \<Rightarrow> telegram_db \<times> (exn + middleware_data)" where
  "pre_process db message sender_member bot_member =
     (let telegram_user = from_user message; telegram_chat = message_chat message
      in then_do
           (if user_read db (user_id telegram_user) = None
            then user_create db (telegram_user\<lparr>role := ''user''\<rparr>)
            else user_update db telegram_user)
           (\<lambda>db1 db_user.
              if chat_type telegram_chat \<noteq> ''private'' then
                (let telegram_chat_member = get_member sender_member;
                     bot_chat_member = get_member bot_member
                 in then_do
                      (if chat_read db1 (chat_id telegram_chat) = None
                       then chat_create db1 telegram_chat
                       else chat_update db1 telegram_chat)
                      (\<lambda>db2 db_chat.
                         then_do
                           (sender_membership db2 (chat_id telegram_chat) (user_id telegram_user)
                              telegram_chat_member)
                           (\<lambda>db3 db_chat_member.
                              then_do
                                (bot_membership db3 (chat_id telegram_chat) (bot_id message)
                                   bot_chat_member)
                                (\<lambda>db4 done.
                                   (db4, Inr \<lparr>data_user = db_user, data_chat = db_chat,
                                              data_chat_member = db_chat_member\<rparr>)))))
              else (db1, Inr \<lparr>data_user = db_user, data_chat = None, data_chat_member = None\<rparr>)))"

section \<open>Concrete inputs\<close>

text \<open>
  Inputs on which the theorems below are instantiated.  \<open>decimal_int\<close> is Python's
  \<^verbatim>\<open>int\<close> on non-empty strings of ASCII digits, the form in which the management API
  sends key ids; it is only an instance of the parameter \<open>py_int\<close>.  The server is the
  one of the end-to-end scenario: address 203.0.113.9, that is 3405803785.
\<close>

definition decimal_int :: "string \<Rightarrow> int option" where
  "decimal_int s =
     (if s \<noteq> [] \<and> list_all (\<lambda>c. c \<in> set ''0123456789'') s
      then Some (foldl (\<lambda>n c. 10 * n + (int (of_char c) - 48)) 0 s)
      else None)"

definition edge_server :: OutlineServer where
  "edge_server = \<lparr>ip = 3405803785, url = ''https://mgmt.example/abc'', server_name = ''Edge-1'', is_active = True\<rparr>"

definition stale_db :: database where
  "stale_db =
     \<lparr>outline_server = [edge_server],
      server_key =
        [\<lparr>key_id = 1, name = ''carol'', password = ''pw1'', port = 4431, method = ''chacha20-ietf-poly1305'',
          access_url = ''ss://carol'', used_bytes = 5, server_ip = 3405803785\<rparr>,
         \<lparr>key_id = 2, name = ''bob'', password = ''pw2'', port = 4432, method = ''chacha20-ietf-poly1305'',
          access_url = ''ss://bob'', used_bytes = 10, server_ip = 3405803785\<rparr>,
         \<lparr>key_id = 2, name = ''zed'', password = ''pw9'', port = 9, method = ''chacha20-ietf-poly1305'',
          access_url = ''ss://zed'', used_bytes = 0, server_ip = 7\<rparr>]\<rparr>"

definition edge_vpn :: OutlineVPN where
  "edge_vpn =
     \<lparr>keys_response = Response 200 (Json (Some
        [\<lparr>json_id = ''2'', json_name = ''bob'', json_password = ''pw2'', json_port = 4432,
          json_method = ''chacha20-ietf-poly1305'', json_accessUrl = ''ss://bob''\<rparr>,
         \<lparr>json_id = ''3'', json_name = ''alice'', json_password = ''pw3'', json_port = 4433,
          json_method = ''chacha20-ietf-poly1305'', json_accessUrl = ''ss://alice''\<rparr>])),
      metrics_response = Response 200 (Json (BytesTransferredByUserId [(''2'', 2048)]))\<rparr>"

definition edge_keys :: "OutlineKey list" where
  "edge_keys =
     [\<lparr>key_id = 2, name = ''bob'', password = ''pw2'', port = 4432, method = ''chacha20-ietf-poly1305'',
       access_url = ''ss://bob'', used_bytes = 2048\<rparr>,
      \<lparr>key_id = 3, name = ''alice'', password = ''pw3'', port = 4433, method = ''chacha20-ietf-poly1305'',
       access_url = ''ss://alice'', used_bytes = 0\<rparr>]"

text \<open>The same endpoint when the metrics request is answered with status 503.\<close>

definition outage_vpn :: OutlineVPN where
  "outage_vpn = edge_vpn\<lparr>metrics_response := Response 503 UnreadableBody\<rparr>"

text \<open>The store after one reconciliation of \<open>stale_db\<close> against \<open>edge_vpn\<close>.\<close>

definition synced_db :: database where
  "synced_db = fst (server_key_sync decimal_int stale_db (Some 3405803785) edge_vpn)"

definition alice_key :: OutlineKey where
  "alice_key = \<lparr>key_id = 3, name = ''alice'', password = ''pw3'', port = 4433,
     method = ''chacha20-ietf-poly1305'', access_url = ''ss://alice'', used_bytes = 0\<rparr>"

definition dave_key :: OutlineKey where
  "dave_key = \<lparr>key_id = 4, name = ''dave'', password = ''pw4'', port = 4434,
     method = ''chacha20-ietf-poly1305'', access_url = ''ss://dave'', used_bytes = 7\<rparr>"

definition local_keys :: "OutlineKey list" where
  "local_keys =
     [\<lparr>key_id = 1, name = ''carol'', password = ''pw1'', port = 4431, method = ''chacha20-ietf-poly1305'',
       access_url = ''ss://carol'', used_bytes = 5\<rparr>,
      \<lparr>key_id = 2, name = ''bob'', password = ''pw2'', port = 4432, method = ''chacha20-ietf-poly1305'',
       access_url = ''ss://bob'', used_bytes = 10\<rparr>,
      dave_key]"

definition remote_keys :: "OutlineKey list" where
  "remote_keys =
     [\<lparr>key_id = 2, name = ''bob'', password = ''pw2'', port = 4432, method = ''chacha20-ietf-poly1305'',
       access_url = ''ss://bob'', used_bytes = 2048\<rparr>,
      alice_key,
      dave_key]"

text \<open>
  Two sessions for \<open>server_key_delete\<close>: one answers every request with status 500, the
  other answers the delete of key 2 on the example server with 204.
\<close>

definition refusing_session :: client_session where
  "refusing_session request = Response 500 UnreadableBody"

definition accepting_session :: client_session where
  "accepting_session request =
     (if request = delete_key_request ''https://mgmt.example/abc'' 2
      then Response 204 UnreadableBody else Response 404 UnreadableBody)"

text \<open>
  Instances of the parameters of the dialogue handlers, for the inputs of the carry-over
  scenario: stripping of ASCII blanks, and dotted-quad IPv4 addresses (four fields of one to
  three decimal digits, each at most 255) with their rendering.
\<close>

definition ascii_strip :: "string \<Rightarrow> string" where
  "ascii_strip s =
     rev (dropWhile (\<lambda>c. c \<in> set [CHR '' '', CHR 0x09, CHR 0x0A, CHR 0x0B, CHR 0x0C, CHR 0x0D])
       (rev (dropWhile (\<lambda>c. c \<in> set [CHR '' '', CHR 0x09, CHR 0x0A, CHR 0x0B, CHR 0x0C, CHR 0x0D]) s)))"

fun split_dots :: "string \<Rightarrow> string list" where
  "split_dots [] = [[]]"
| "split_dots (c # cs) =
     (if c = CHR ''.'' then [] # split_dots cs
      else (case split_dots cs of [] \<Rightarrow> [[c]] | p # ps \<Rightarrow> (c # p) # ps))"

definition ipv4_address :: "string \<Rightarrow> nat option" where
  "ipv4_address s =
     (let fields = split_dots s
      in if length fields = 4
            \<and> list_all (\<lambda>f. length f \<le> 3) fields
            \<and> list_all (\<lambda>f. case decimal_int f of None \<Rightarrow> False | Some n \<Rightarrow> n \<le> 255) fields
         then Some (foldl (\<lambda>n f. 256 * n + (case decimal_int f of None \<Rightarrow> 0 | Some k \<Rightarrow> nat k)) 0 fields)
         else None)"

definition ipv4_str :: "nat \<Rightarrow> string" where
  "ipv4_str n =
     str_nat (n div 16777216) @ ''.'' @ str_nat (n div 65536 mod 256) @ ''.''
       @ str_nat (n div 256 mod 256) @ ''.'' @ str_nat (n mod 256)"

text \<open>The context of the dialogue after the name \<^verbatim>\<open>MyServer\<close> was entered.\<close>

definition named_ctx :: FSMContext where
  "named_ctx = \<lparr>state = Some enter_ip, data = [''server_name'' \<mapsto> Str ''MyServer'']\<rparr>"

text \<open>
  A store that holds only the bot's own user row (written at start-up), and the first
  message of a user in a group.
\<close>

definition bot_user :: User where
  "bot_user = \<lparr>user_id = 42, is_bot = True, first_name = ''ilfree'', last_name = None,
     username = Some ''ilfree_bot'', mention = ''@ilfree_bot'', lang_code = None, role = ''user''\<rparr>"

definition ann :: User where
  "ann = \<lparr>user_id = 1001, is_bot = False, first_name = ''Ann'', last_name = None,
     username = None, mention = ''Ann'', lang_code = Some ''en'', role = ''''\<rparr>"

definition group_chat :: Chat where
  "group_chat = \<lparr>chat_id = - 100, chat_type = ''group'', title = Some ''Ops'', chat_username = None\<rparr>"

definition fresh_db :: telegram_db where
  "fresh_db = \<lparr>users = [bot_user], chats = [], chat_members = []\<rparr>"

definition group_message :: Message where
  "group_message = \<lparr>from_user = ann, message_chat = group_chat, bot_id = 42\<rparr>"

text \<open>
  The example server with no key stored yet, and an endpoint that reports one key whose
  transferred bytes are \<open>2 ^ 63\<close>, one more than \<open>MAX_SQLITE_INT\<close>.
\<close>

definition edge_only_db :: database where
  "edge_only_db = \<lparr>outline_server = [edge_server], server_key = []\<rparr>"

definition huge_key :: OutlineKey where
  "huge_key = \<lparr>key_id = 9, name = ''erin'', password = ''pw9'', port = 4439,
     method = ''chacha20-ietf-poly1305'', access_url = ''ss://erin'',
     used_bytes = 9223372036854775808\<rparr>"

definition huge_vpn :: OutlineVPN where
  "huge_vpn =
     \<lparr>keys_response = Response 200 (Json (Some
        [\<lparr>json_id = ''9'', json_name = ''erin'', json_password = ''pw9'', json_port = 4439,
          json_method = ''chacha20-ietf-poly1305'', json_accessUrl = ''ss://erin''\<rparr>])),
      metrics_response = Response 200 (Json (BytesTransferredByUserId [(''9'', 9223372036854775808)]))\<rparr>"

section \<open>Properties of the reconciliation\<close>

subsection \<open>Rows, statements and write sets\<close>


lemma db_key_insert_row: "db_key (insert_row a k) = k"
  by (simp add: db_key_def insert_row_def)

lemma insert_row_fields: "server_ip (insert_row a k) = a" "key_id (insert_row a k) = key_id k"
  by (simp_all add: insert_row_def)

lemma update_values_fields:
  "server_ip (update_values k row) = server_ip row" "key_id (update_values k row) = key_id row"
  by (simp_all add: update_values_def)

lemma primary_key_update_values: "primary_key (update_values k row) = primary_key row"
  by (simp add: primary_key_def update_values_fields)

lemma db_key_update_values: "key_id row = key_id k \<Longrightarrow> db_key (update_values k row) = k"
  by (simp add: db_key_def update_values_def)

lemma update_values_same: "db_key row = k \<Longrightarrow> update_values k row = row"
  by (auto simp add: db_key_def update_values_def)

lemma db_key_id: "key_id (db_key row) = key_id row"
  by (simp add: db_key_def)

lemma execute_all_append:
  "execute_all db (xs @ ys) =
     (case execute_all db xs of Inl e \<Rightarrow> Inl e | Inr db' \<Rightarrow> execute_all db' ys)"
  by (induction xs arbitrary: db) (auto split: sum.splits)

lemma execute_all_deletes:
  assumes "storable (int a)"
    and "list_all (\<lambda>key. storable (key_id key)) ks"
  shows "execute_all db (map (\<lambda>key. Delete a (key_id key)) ks) =
     Inr (db\<lparr>server_key :=
            filter (\<lambda>row. \<not> (server_ip row = a \<and> key_id row \<in> key_id ` set ks)) (server_key db)\<rparr>)"
  using assms(2)
proof (induction ks arbitrary: db)
  case Nil
  show ?case by simp
next
  case (Cons k ks)
  then have rest: "list_all (\<lambda>key. storable (key_id key)) ks" and here: "storable (key_id k)"
    by simp_all
  show ?case
    by (simp add: Cons.IH[OF rest] here assms(1))
       (rule arg_cong[where f="\<lambda>x. db\<lparr>server_key := x\<rparr>"], rule filter_cong, auto)
qed

lemma execute_all_updates:
  assumes "storable (int a)"
    and "list_all storable_key ks"
  shows "execute_all db (map (\<lambda>key. Update a (key_id key) key) ks) =
     Inr (db\<lparr>server_key := map (apply_updates a ks) (server_key db)\<rparr>)"
  using assms(2)
proof (induction ks arbitrary: db)
  case Nil
  show ?case by (simp add: apply_updates_def)
next
  case (Cons k ks)
  have rest: "list_all storable_key ks" using Cons.prems by simp
  have "storable_key k" using Cons.prems by simp
  then have here: "storable (key_id k)" "storable (port k)" "storable (used_bytes k)"
    by (simp_all add: storable_key_def)
  show ?case by (simp add: Cons.IH[OF rest] here assms(1) apply_updates_def comp_def)
qed

lemma update_values_storable:
  "storable_key k \<Longrightarrow> storable_row row \<Longrightarrow> storable_row (update_values k row)"
  by (simp add: storable_key_def storable_row_def update_values_def)

lemma apply_updates_storable:
  "list_all storable_key ks \<Longrightarrow> storable_row row \<Longrightarrow> storable_row (apply_updates a ks row)"
  unfolding apply_updates_def
  by (induction ks arbitrary: row) (simp_all add: update_values_storable)

lemma insert_row_storable:
  "storable (int a) \<Longrightarrow> storable_key k \<Longrightarrow> storable_row (insert_row a k)"
  by (simp add: storable_key_def storable_row_def insert_row_def)

lemma db_key_storable: "storable_row row \<Longrightarrow> storable_key (db_key row)"
  by (simp add: storable_key_def storable_row_def db_key_def)

lemma apply_updates_pk: "primary_key (apply_updates a ks row) = primary_key row"
  unfolding apply_updates_def
  by (induction ks arbitrary: row) (simp_all add: primary_key_update_values)

lemma apply_updates_other: "server_ip row \<noteq> a \<Longrightarrow> apply_updates a ks row = row"
  unfolding apply_updates_def
  by (induction ks arbitrary: row) simp_all

lemma apply_updates_untouched: "key_id row \<notin> key_id ` set ks \<Longrightarrow> apply_updates a ks row = row"
  unfolding apply_updates_def
  by (induction ks arbitrary: row) simp_all

lemma apply_updates_hit:
  "distinct (map key_id ks) \<Longrightarrow> k \<in> set ks \<Longrightarrow> server_ip row = a \<Longrightarrow> key_id row = key_id k
     \<Longrightarrow> apply_updates a ks row = update_values k row"
proof (induction ks arbitrary: row)
  case Nil
  then show ?case by simp
next
  case (Cons x ks)
  show ?case
  proof (cases "x = k")
    case True
    have "key_id (update_values k row) \<notin> key_id ` set ks"
      using Cons.prems True by (simp add: update_values_fields)
    then have "apply_updates a ks (update_values k row) = update_values k row"
      by (rule apply_updates_untouched)
    then show ?thesis using Cons.prems True by (simp add: apply_updates_def)
  next
    case False
    then have "k \<in> set ks" using Cons.prems by simp
    moreover have "key_id x \<noteq> key_id k" using Cons.prems \<open>k \<in> set ks\<close> by auto
    ultimately show ?thesis using Cons.prems Cons.IH[of row] by (simp add: apply_updates_def)
  qed
qed

lemma set_db_keys:
  "set (map db_key (server_key_list db (Some a))) = db_key ` {row \<in> set (server_key db). server_ip row = a}"
  by (auto simp add: server_key_list_def)

lemma set_keys_to_delete:
  "set (keys_to_delete db_keys vpn_keys) = {k \<in> set db_keys. key_id k \<notin> key_id ` set vpn_keys}"
  by (auto simp add: keys_to_delete_def)

lemma set_keys_to_update:
  "set (keys_to_update db_keys vpn_keys) = {k \<in> set vpn_keys. k \<notin> set db_keys}"
  by (auto simp add: keys_to_update_def set_keys_to_delete)

lemma distinct_keys_to_update:
  "distinct (map key_id vpn_keys) \<Longrightarrow> distinct (map key_id (keys_to_update db_keys vpn_keys))"
proof -
  assume dv: "distinct (map key_id vpn_keys)"
  then have "distinct vpn_keys" by (rule distinct_map[THEN iffD1, THEN conjunct1])
  then have "remdups vpn_keys = vpn_keys" by (rule distinct_remdups_id)
  then show ?thesis
    unfolding keys_to_update_def using dv by (simp only: distinct_map_filter)
qed

lemma set_insert_values:
  "set (insert_values a db_keys vpn_keys) =
     insert_row a ` {k \<in> set vpn_keys. key_id k \<notin> key_id ` set db_keys}"
  by (auto simp add: insert_values_def)

lemma distinct_insert_values:
  assumes "distinct (map key_id vpn_keys)"
  shows "distinct (map primary_key (insert_values a db_keys vpn_keys))"
proof -
  have "distinct vpn_keys" using assms by (rule distinct_map[THEN iffD1, THEN conjunct1])
  then have r: "remdups (filter (\<lambda>k. key_id k \<notin> set (map key_id db_keys)) vpn_keys)
             = filter (\<lambda>k. key_id k \<notin> set (map key_id db_keys)) vpn_keys"
    by (simp add: distinct_remdups_id)
  have "distinct (map key_id (filter (\<lambda>k. key_id k \<notin> set (map key_id db_keys)) vpn_keys))"
    using assms by (rule distinct_map_filter)
  then have "distinct (map (\<lambda>k. (a, key_id k)) (filter (\<lambda>k. key_id k \<notin> set (map key_id db_keys)) vpn_keys))"
    by (simp add: distinct_map inj_on_def)
  moreover have "map primary_key (insert_values a db_keys vpn_keys)
      = map (\<lambda>k. (a, key_id k)) (filter (\<lambda>k. key_id k \<notin> set (map key_id db_keys)) vpn_keys)"
    by (simp only: insert_values_def r) (simp add: primary_key_def insert_row_fields comp_def)
  ultimately show ?thesis by simp
qed

lemma execute_sync_statements:
  assumes srv: "a \<in> set (map ip (outline_server db))"
    and dv: "distinct (map key_id vpn_keys)"
    and sa: "storable (int a)"
    and sv: "list_all storable_key vpn_keys"
    and sd: "list_all storable_row (server_key db)"
  shows "execute_all db (sync_statements a (map db_key (server_key_list db (Some a))) vpn_keys)
           = Inr (db\<lparr>server_key := synced_table db a vpn_keys\<rparr>)"
proof -
  define db_keys where "db_keys = map db_key (server_key_list db (Some a))"
  define ins where "ins = insert_values a db_keys vpn_keys"
  have d: "distinct (map primary_key ins)"
    unfolding ins_def using dv by (rule distinct_insert_values)
  have fresh: "list_all (\<lambda>row. primary_key row \<notin> set (map primary_key (server_key db))) ins"
  proof -
    have "primary_key row \<notin> primary_key ` set (server_key db)" if "row \<in> set ins" for row
    proof
      assume "primary_key row \<in> primary_key ` set (server_key db)"
      then obtain old where o: "old \<in> set (server_key db)" "primary_key old = primary_key row"
        by auto
      from that obtain k where k: "row = insert_row a k" "key_id k \<notin> key_id ` set db_keys"
        unfolding ins_def set_insert_values by auto
      have "server_ip old = a" "key_id old = key_id k"
        using o(2) k(1) by (simp_all add: primary_key_def insert_row_fields)
      then have "db_key old \<in> set db_keys"
        unfolding db_keys_def set_db_keys using o(1) by auto
      then have "key_id (db_key old) \<in> key_id ` set db_keys" by (rule imageI)
      with k(2) \<open>key_id old = key_id k\<close> show False by (simp add: db_key_id)
    qed
    then show ?thesis by (simp add: list_all_iff)
  qed
  have fk: "list_all (\<lambda>row. server_ip row \<in> set (map ip (outline_server db))) ins"
    using srv by (auto simp add: list_all_iff ins_def set_insert_values insert_row_fields)
  have si: "list_all storable_row ins"
    using sa sv
    by (auto simp add: list_all_iff ins_def set_insert_values intro: insert_row_storable)
  have ex_ins: "execute db (Insert ins) = Inr (db\<lparr>server_key := server_key db @ ins\<rparr>)"
    using si d fresh fk by simp
  have first: "execute_all db (if ins \<noteq> [] then [Insert ins] else [])
                 = Inr (db\<lparr>server_key := server_key db @ ins\<rparr>)"
    using ex_ins by (cases "ins = []") simp_all
  have "storable_key k" if "k \<in> set db_keys" for k
    using that sd unfolding db_keys_def set_db_keys
    by (auto simp add: list_all_iff intro: db_key_storable)
  then have "list_all (\<lambda>key. storable (key_id key)) (keys_to_delete db_keys vpn_keys)"
    by (auto simp add: list_all_iff set_keys_to_delete storable_key_def)
  note deletes = execute_all_deletes[OF sa this]
  have "list_all storable_key (keys_to_update db_keys vpn_keys)"
    using sv by (auto simp add: list_all_iff set_keys_to_update)
  note updates = execute_all_updates[OF sa this]
  show ?thesis
    unfolding sync_statements_def db_keys_def[symmetric] ins_def[symmetric]
    by (simp only: execute_all_append first deletes updates sum.case)
       (simp add: synced_table_def Let_def db_keys_def[symmetric] ins_def[symmetric])
qed

lemma row_converges:
  assumes pk: "distinct (map primary_key (server_key db))"
    and dv: "distinct (map key_id vpn_keys)"
    and row: "row \<in> set (server_key db)" "server_ip row = a"
    and k: "k \<in> set vpn_keys" "key_id k = key_id row"
  shows "db_key (apply_updates a (keys_to_update (map db_key (server_key_list db (Some a))) vpn_keys) row) = k"
proof -
  define db_keys where "db_keys = map db_key (server_key_list db (Some a))"
  define U where "U = keys_to_update db_keys vpn_keys"
  have dU: "distinct (map key_id U)"
    unfolding U_def using dv by (rule distinct_keys_to_update)
  show ?thesis
  proof (cases "k \<in> set U")
    case True
    then have "apply_updates a U row = update_values k row"
      using dU row(2) k(2) by (simp add: apply_updates_hit)
    then show ?thesis
      unfolding db_keys_def[symmetric] U_def[symmetric] using k(2) by (simp add: db_key_update_values)
  next
    case False
    then have "k \<in> set db_keys"
      using k(1) by (simp add: U_def set_keys_to_update)
    then obtain row2 where r2: "row2 \<in> set (server_key db)" "server_ip row2 = a" "db_key row2 = k"
      unfolding db_keys_def set_db_keys by auto
    have "key_id row2 = key_id row"
      using r2(3) k(2) db_key_id[of row2] by simp
    then have "primary_key row2 = primary_key row"
      using r2(2) row(2) by (simp add: primary_key_def)
    then have "row2 = row"
      using pk r2(1) row(1) by (auto simp add: distinct_map inj_on_def)
    then have same: "db_key row = k" using r2(3) by simp
    have "key_id row \<notin> key_id ` set U"
    proof
      assume "key_id row \<in> key_id ` set U"
      then obtain u where u: "u \<in> set U" "key_id u = key_id row" by auto
      then have "u \<in> set vpn_keys" by (simp add: U_def set_keys_to_update)
      then have "u = k"
        using dv k u(2) by (auto simp add: distinct_map inj_on_def)
      with u(1) False show False by simp
    qed
    then have "apply_updates a U row = row" by (rule apply_updates_untouched)
    then show ?thesis
      unfolding db_keys_def[symmetric] U_def[symmetric] using same by simp
  qed
qed

lemma inserted_row_converges:
  assumes dv: "distinct (map key_id vpn_keys)"
    and k: "k \<in> set vpn_keys" "k \<notin> set db_keys"
  shows "db_key (apply_updates a (keys_to_update db_keys vpn_keys) (insert_row a k)) = k"
proof -
  have "distinct (map key_id (keys_to_update db_keys vpn_keys))"
    using dv by (rule distinct_keys_to_update)
  moreover have "k \<in> set (keys_to_update db_keys vpn_keys)"
    using k by (simp add: set_keys_to_update)
  ultimately have "apply_updates a (keys_to_update db_keys vpn_keys) (insert_row a k)
                     = update_values k (insert_row a k)"
    by (simp add: apply_updates_hit insert_row_fields)
  then show ?thesis by (simp add: db_key_update_values insert_row_fields)
qed

lemma set_synced_table:
  "set (synced_table db a vpn_keys) =
     apply_updates a (keys_to_update (map db_key (server_key_list db (Some a))) vpn_keys) `
       {row \<in> set (server_key db) \<union> set (insert_values a (map db_key (server_key_list db (Some a))) vpn_keys).
          \<not> (server_ip row = a
             \<and> key_id row \<in> key_id ` set (keys_to_delete (map db_key (server_key_list db (Some a))) vpn_keys))}"
  by (auto simp add: synced_table_def Let_def)

lemma synced_table_converges:
  assumes pk: "distinct (map primary_key (server_key db))"
    and dv: "distinct (map key_id vpn_keys)"
  shows "db_key ` {row \<in> set (synced_table db a vpn_keys). server_ip row = a} = set vpn_keys"
proof -
  define db_keys where "db_keys = map db_key (server_key_list db (Some a))"
  define U where "U = keys_to_update db_keys vpn_keys"
  define D where "D = key_id ` set (keys_to_delete db_keys vpn_keys)"
  define ins where "ins = insert_values a db_keys vpn_keys"
  have tbl: "set (synced_table db a vpn_keys) =
      apply_updates a U ` {row \<in> set (server_key db) \<union> set ins. \<not> (server_ip row = a \<and> key_id row \<in> D)}"
    unfolding U_def D_def ins_def db_keys_def by (rule set_synced_table)
  have ip_keep: "server_ip (apply_updates a U row) = server_ip row" for row
    using apply_updates_pk[of a U row] by (simp add: primary_key_def)
  have D_vpn: "i \<in> D \<Longrightarrow> i \<notin> key_id ` set vpn_keys" for i
    unfolding D_def set_keys_to_delete by auto
  have old: "db_key (apply_updates a U row) = k"
    if "row \<in> set (server_key db)" "server_ip row = a" "k \<in> set vpn_keys" "key_id k = key_id row"
    for row k
    unfolding U_def db_keys_def using pk dv that by (rule row_converges)
  have new: "db_key (apply_updates a U (insert_row a k)) = k"
    if "k \<in> set vpn_keys" "k \<notin> set db_keys" for k
    unfolding U_def using dv that by (rule inserted_row_converges)
  show ?thesis
  proof (rule set_eqI, rule iffI)
    fix x
    assume "x \<in> db_key ` {row \<in> set (synced_table db a vpn_keys). server_ip row = a}"
    then obtain r' where r': "r' \<in> set (synced_table db a vpn_keys)" "server_ip r' = a" "x = db_key r'"
      by auto
    from r'(1) obtain row0 where row0: "row0 \<in> set (server_key db) \<union> set ins"
        "\<not> (server_ip row0 = a \<and> key_id row0 \<in> D)" "r' = apply_updates a U row0"
      unfolding tbl by blast
    have "server_ip row0 = a" using r'(2) row0(3) ip_keep[of row0] by simp
    with row0 r'(3) obtain row where row: "row \<in> set (server_key db) \<union> set ins"
        "\<not> (server_ip row = a \<and> key_id row \<in> D)" "server_ip row = a"
        "x = db_key (apply_updates a U row)"
      by blast
    from row(1) show "x \<in> set vpn_keys"
    proof
      assume r: "row \<in> set (server_key db)"
      then have "db_key row \<in> set db_keys"
        unfolding db_keys_def set_db_keys using row(3) by auto
      moreover have "key_id row \<notin> D" using row(2,3) by simp
      ultimately have "key_id row \<in> key_id ` set vpn_keys"
        unfolding D_def set_keys_to_delete using db_key_id[of row] by force
      then obtain k where "k \<in> set vpn_keys" "key_id k = key_id row" by auto
      then show ?thesis using old[OF r row(3)] row(4) by simp
    next
      assume "row \<in> set ins"
      then obtain k where k: "k \<in> set vpn_keys" "key_id k \<notin> key_id ` set db_keys" "row = insert_row a k"
        unfolding ins_def set_insert_values by auto
      then have "k \<notin> set db_keys" by auto
      then show ?thesis using new[OF k(1)] row(4) k(1,3) by simp
    qed
  next
    fix k
    assume k: "k \<in> set vpn_keys"
    have notD: "key_id k \<notin> D" using D_vpn k by auto
    show "k \<in> db_key ` {row \<in> set (synced_table db a vpn_keys). server_ip row = a}"
    proof (cases "key_id k \<in> key_id ` set db_keys")
      case True
      then obtain row where row: "row \<in> set (server_key db)" "server_ip row = a" "key_id row = key_id k"
        unfolding db_keys_def set_db_keys using db_key_id by force
      have "apply_updates a U row \<in> set (synced_table db a vpn_keys)"
        unfolding tbl using row notD by auto
      moreover have "server_ip (apply_updates a U row) = a" using row(2) by (simp add: ip_keep)
      moreover have "db_key (apply_updates a U row) = k" using old[OF row(1,2) k] row(3) by simp
      ultimately show ?thesis by force
    next
      case False
      then have nk: "k \<notin> set db_keys" by auto
      have "insert_row a k \<in> set ins"
        unfolding ins_def set_insert_values using k False by auto
      then have "apply_updates a U (insert_row a k) \<in> set (synced_table db a vpn_keys)"
        unfolding tbl using notD by (auto simp add: insert_row_fields)
      moreover have "server_ip (apply_updates a U (insert_row a k)) = a"
        by (simp add: ip_keep insert_row_fields)
      moreover have "db_key (apply_updates a U (insert_row a k)) = k" using new[OF k nk] .
      ultimately show ?thesis by force
    qed
  qed
qed

lemma insert_values_fresh:
  assumes "row \<in> set (insert_values a (map db_key (server_key_list db (Some a))) vpn_keys)"
  shows "primary_key row \<notin> primary_key ` set (server_key db)"
proof
  define db_keys where "db_keys = map db_key (server_key_list db (Some a))"
  assume "primary_key row \<in> primary_key ` set (server_key db)"
  then obtain old where o: "old \<in> set (server_key db)" "primary_key old = primary_key row"
    by auto
  from assms obtain k where k: "row = insert_row a k" "key_id k \<notin> key_id ` set db_keys"
    unfolding db_keys_def set_insert_values by auto
  have "server_ip old = a" "key_id old = key_id k"
    using o(2) k(1) by (simp_all add: primary_key_def insert_row_fields)
  then have "db_key old \<in> set db_keys"
    unfolding db_keys_def set_db_keys using o(1) by auto
  then have "key_id (db_key old) \<in> key_id ` set db_keys" by (rule imageI)
  with k(2) \<open>key_id old = key_id k\<close> show False by (simp add: db_key_id)
qed

lemma synced_table_distinct:
  assumes pk: "distinct (map primary_key (server_key db))"
    and dv: "distinct (map key_id vpn_keys)"
  shows "distinct (map primary_key (synced_table db a vpn_keys))"
proof -
  define db_keys where "db_keys = map db_key (server_key_list db (Some a))"
  define ins where "ins = insert_values a db_keys vpn_keys"
  have "distinct (map primary_key ins)"
    unfolding ins_def using dv by (rule distinct_insert_values)
  moreover have "primary_key ` set (server_key db) \<inter> primary_key ` set ins = {}"
  proof -
    have "primary_key old \<noteq> primary_key row"
      if "row \<in> set ins" "old \<in> set (server_key db)" for row old
    proof -
      have "primary_key row \<notin> primary_key ` set (server_key db)"
        using that(1) unfolding ins_def db_keys_def by (rule insert_values_fresh)
      then show ?thesis using that(2) by (metis imageI)
    qed
    then show ?thesis by fastforce
  qed
  ultimately have "distinct (map primary_key (server_key db @ ins))"
    using pk by simp
  then have f1: "distinct (map primary_key (filter P (server_key db @ ins)))" for P
    by (rule distinct_map_filter)
  have f2: "map primary_key (map (apply_updates a U) xs) = map primary_key xs" for U xs
    by (simp add: apply_updates_pk comp_def)
  show ?thesis
    unfolding synced_table_def Let_def db_keys_def[symmetric] ins_def[symmetric]
    by (simp only: f2 f1)
qed

lemma synced_table_other_servers:
  "filter (\<lambda>row. server_ip row \<noteq> a) (synced_table db a vpn_keys)
     = filter (\<lambda>row. server_ip row \<noteq> a) (server_key db)"
proof -
  define db_keys where "db_keys = map db_key (server_key_list db (Some a))"
  define ins where "ins = insert_values a db_keys vpn_keys"
  define U where "U = keys_to_update db_keys vpn_keys"
  define D where "D = key_id ` set (keys_to_delete db_keys vpn_keys)"
  have ip_keep: "server_ip (apply_updates a U row) = server_ip row" for row
    using apply_updates_pk[of a U row] by (simp add: primary_key_def)
  have 1: "filter (\<lambda>row. server_ip row \<noteq> a) (map (apply_updates a U) xs)
             = filter (\<lambda>row. server_ip row \<noteq> a) xs" for xs
    by (induction xs) (simp_all add: ip_keep apply_updates_other)
  have 2: "filter (\<lambda>row. server_ip row \<noteq> a) (filter (\<lambda>row. \<not> (server_ip row = a \<and> key_id row \<in> D)) xs)
             = filter (\<lambda>row. server_ip row \<noteq> a) xs" for xs
    by (induction xs) simp_all
  have 3: "filter (\<lambda>row. server_ip row \<noteq> a) ins = []"
    by (simp add: ins_def insert_values_def filter_empty_conv insert_row_fields)
  show ?thesis
    unfolding synced_table_def Let_def db_keys_def[symmetric] ins_def[symmetric]
      U_def[symmetric] D_def[symmetric]
    by (simp only: 1 2 filter_append 3 append_Nil2)
qed

lemma sync_statements_converged:
  assumes "set db_keys = set vpn_keys"
  shows "sync_statements a db_keys vpn_keys = []"
proof -
  have "filter (\<lambda>k. key_id k \<notin> set (map key_id db_keys)) vpn_keys = []"
    using assms by (simp add: filter_empty_conv)
  then have i: "insert_values a db_keys vpn_keys = []"
    by (simp only: insert_values_def remdups.simps list.map)
  have "filter (\<lambda>k. key_id k \<notin> set (map key_id vpn_keys)) db_keys = []"
    using assms by (simp add: filter_empty_conv)
  then have d: "keys_to_delete db_keys vpn_keys = []"
    by (simp only: keys_to_delete_def remdups.simps)
  have u: "keys_to_update db_keys vpn_keys = []"
    using assms by (simp add: keys_to_update_def filter_empty_conv)
  show ?thesis by (simp add: sync_statements_def i d u)
qed

lemma server_read_Some:
  "server_read db (Some a) = Some server \<Longrightarrow> a \<in> set (map ip (outline_server db))"
  by (auto simp add: server_read_def find_Some_iff)

lemma valid_store_address:
  assumes "valid_store db"
    and "server_read db (Some a) = Some server"
  shows "storable (int a)"
proof -
  have "a \<in> set (map ip (outline_server db))" using assms(2) by (rule server_read_Some)
  then show ?thesis using assms(1) by (auto simp add: valid_store_def list_all_iff)
qed

lemma synced_table_storable:
  assumes "storable (int a)"
    and "list_all storable_key vpn_keys"
    and "list_all storable_row (server_key db)"
  shows "list_all storable_row (synced_table db a vpn_keys)"
proof -
  define db_keys where "db_keys = map db_key (server_key_list db (Some a))"
  have u: "list_all storable_key (keys_to_update db_keys vpn_keys)"
    using assms(2) by (auto simp add: list_all_iff set_keys_to_update)
  have i: "list_all storable_row (insert_values a db_keys vpn_keys)"
    using assms(1,2)
    by (auto simp add: list_all_iff set_insert_values intro: insert_row_storable)
  have "storable_row (apply_updates a (keys_to_update db_keys vpn_keys) row)"
    if "row \<in> set (server_key db) \<union> set (insert_values a db_keys vpn_keys)" for row
  proof -
    have "storable_row row" using that assms(3) i by (auto simp add: list_all_iff)
    with u show ?thesis by (rule apply_updates_storable)
  qed
  then show ?thesis
    unfolding list_all_iff set_synced_table db_keys_def by blast
qed

lemma server_key_sync_success:
  assumes "server_read db (Some a) = Some server"
    and "get_keys py_int vpn = Inr vpn_keys"
    and "distinct (map key_id vpn_keys)"
    and "valid_store db"
    and "list_all storable_key vpn_keys"
  shows "server_key_sync py_int db (Some a) vpn =
           (db\<lparr>server_key := synced_table db a vpn_keys\<rparr>,
            Inr (KeyList (server_key_list (db\<lparr>server_key := synced_table db a vpn_keys\<rparr>) (Some a))))"
proof -
  have srv: "a \<in> set (map ip (outline_server db))" using assms(1) by (rule server_read_Some)
  have sa: "storable (int a)" using assms(4,1) by (rule valid_store_address)
  have sd: "list_all storable_row (server_key db)" using assms(4) by (simp add: valid_store_def)
  have "execute_all db (sync_statements a (map db_key (server_key_list db (Some a))) vpn_keys)
           = Inr (db\<lparr>server_key := synced_table db a vpn_keys\<rparr>)"
    using srv assms(3) sa assms(5) sd by (rule execute_sync_statements)
  then show ?thesis
    using assms(1,2) by (simp add: server_key_sync_def issued_statements_def Let_def)
qed

lemma server_key_sync_failure:
  assumes "server_read db (Some a) = Some server"
    and "get_keys py_int vpn = Inl e"
  shows "server_key_sync py_int db (Some a) vpn = (db, Inr (KeyList (server_key_list db (Some a))))"
  using assms by (simp add: server_key_sync_def issued_statements_def Let_def)

lemma get_keys_fetch_fails:
  assumes "fetch_fails (keys_response vpn) \<or> fetch_fails (metrics_response vpn)"
  shows "isl (get_keys py_int vpn)"
proof (cases "fetch_fails (keys_response vpn)")
  case True
  then show ?thesis
    by (auto simp add: fetch_fails_def get_keys_def read_json_def
        split: response.splits body.splits option.splits)
next
  case False
  then have m: "fetch_fails (metrics_response vpn)" using assms by simp
  then have "isl (get_transferred_data (metrics_response vpn))"
    by (auto simp add: fetch_fails_def get_transferred_data_def read_json_def
        split: response.splits body.splits)
  then show ?thesis
    by (auto simp add: get_keys_def isl_def split: response.splits sum.splits option.splits)
qed

lemma written_ids_sync_statements:
  "set (concat (map written_ids (sync_statements a db_keys vpn_keys))) =
     key_id ` set (insert_values a db_keys vpn_keys)
     \<union> key_id ` set (keys_to_delete db_keys vpn_keys)
     \<union> key_id ` set (keys_to_update db_keys vpn_keys)"
proof -
  have d: "set (concat (map written_ids (map (\<lambda>key. Delete a (key_id key)) ks))) = key_id ` set ks" for ks
    by (induction ks) auto
  have u: "set (concat (map written_ids (map (\<lambda>key. Update a (key_id key) key) ks))) = key_id ` set ks" for ks
    by (induction ks) auto
  have i: "set (concat (map written_ids (if rows \<noteq> [] then [Insert rows] else []))) = key_id ` set rows"
    for rows :: "ServerKey list"
    by (cases rows) auto
  show ?thesis
    unfolding sync_statements_def by (simp only: map_append concat_append set_append d u i Un_assoc)
qed

subsection \<open>Deleting rows\<close>

lemma filter_changes_length:
  assumes "filter P xs \<noteq> xs"
  shows "length (filter P xs) < length xs"
proof -
  have "\<not> (\<forall>x \<in> set xs. P x)" using assms filter_True[of xs P] by blast
  then obtain x where "x \<in> set xs" "\<not> P x" by blast
  then show ?thesis by (rule length_filter_less)
qed

lemma server_key_changed:
  assumes "db\<lparr>server_key := filter P (server_key db)\<rparr> \<noteq> db"
  shows "length (filter P (server_key db)) < length (server_key db)"
proof -
  have "filter P (server_key db) \<noteq> server_key db"
  proof
    assume "filter P (server_key db) = server_key db"
    then have "db\<lparr>server_key := filter P (server_key db)\<rparr> = db" by simp
    with assms show False by simp
  qed
  then show ?thesis by (rule filter_changes_length)
qed

lemma add_data_limit_url_ignores_api_url:
  "request_url (add_data_limit_request api_url i n) = request_url (add_data_limit_request api_url' i n)"
  by (simp add: add_data_limit_request_def)

lemma servers_list_example:
  "servers_list stale_db (Some ''active'') = [] \<and> servers_list stale_db None = [edge_server]
   \<and> is_active edge_server"
  by (simp add: servers_list_def is_active_is_def stale_db_def edge_server_def)

subsection \<open>The branches of the membership rule\<close>

lemma sender_membership_both_absent:
  "chat_member_read db c u = None \<Longrightarrow> sender_membership db c u None = (db, Inl AttributeError)"
  by (simp add: sender_membership_def)

lemma bot_membership_both_absent:
  "chat_member_read db c u = None \<Longrightarrow> bot_membership db c u None = (db, Inl AttributeError)"
  by (simp add: bot_membership_def)

lemma sender_membership_create:
  assumes "chat_member_read db c u = None" "c \<noteq> 0" "u \<noteq> 0" "s \<noteq> []"
    and "c \<in> set (map chat_id (chats db))" "u \<in> set (map user_id (users db))"
  shows "sender_membership db c u (Some s) =
           (db\<lparr>chat_members := chat_members db
                  @ [\<lparr>member_chat_id = c, member_user_id = u, status = s\<rparr>]\<rparr>,
            Inr (Some \<lparr>member_chat_id = c, member_user_id = u, status = s\<rparr>))"
proof -
  have none: "find (\<lambda>m. member_chat_id m = c \<and> member_user_id m = u) (chat_members db) = None"
    using assms(1,2,3) by (simp add: chat_member_read_def)
  then have fresh: "(c, u) \<notin> set (map (\<lambda>m. (member_chat_id m, member_user_id m)) (chat_members db))"
    by (auto simp add: find_None_iff)
  have "find (\<lambda>m. member_chat_id m = c \<and> member_user_id m = u)
          (chat_members db @ [\<lparr>member_chat_id = c, member_user_id = u, status = s\<rparr>])
        = Some \<lparr>member_chat_id = c, member_user_id = u, status = s\<rparr>"
  proof -
    have "find P (xs @ [x]) = Some x" if "find P xs = None" "P x" for P and xs :: "ChatMember list" and x
      using that by (induction xs) (auto split: if_splits)
    then show ?thesis using none by simp
  qed
  then show ?thesis
    using assms fresh
    by (simp add: sender_membership_def chat_member_create_def Let_def chat_member_read_def)
qed

lemma sender_membership_delete:
  assumes "chat_member_read db c u = Some m"
  shows "sender_membership db c u None =
           (db\<lparr>chat_members := filter (\<lambda>m. \<not> (member_chat_id m = c \<and> member_user_id m = u))
                                   (chat_members db)\<rparr>, Inr None)"
proof -
  have nz: "c \<noteq> 0" "u \<noteq> 0" using assms by (auto simp add: chat_member_read_def split: if_splits)
  have "find (\<lambda>m. member_chat_id m = c \<and> member_user_id m = u)
          (filter (\<lambda>m. \<not> (member_chat_id m = c \<and> member_user_id m = u)) (chat_members db)) = None"
    by (simp add: find_None_iff)
  then show ?thesis
    using assms nz
    by (simp add: sender_membership_def chat_member_delete_def then_do_def Let_def chat_member_read_def)
qed

lemma sender_membership_update:
  assumes "chat_member_read db c u = Some m"
  shows "\<exists>db' m'. sender_membership db c u (Some s) = (db', Inr (Some m'))
           \<and> status m' = s \<and> member_chat_id m' = c \<and> member_user_id m' = u
           \<and> chat_member_read db' c u = Some m'"
proof -
  have nz: "c \<noteq> 0" "u \<noteq> 0" using assms by (auto simp add: chat_member_read_def split: if_splits)
  define upd :: "ChatMember \<Rightarrow> ChatMember"
    where "upd = (\<lambda>m. if member_chat_id m = c \<and> member_user_id m = u then m\<lparr>status := s\<rparr> else m)"
  have f: "find (\<lambda>m. member_chat_id m = c \<and> member_user_id m = u) (chat_members db) = Some m"
    using assms nz by (simp add: chat_member_read_def)
  have "find (\<lambda>m. member_chat_id m = c \<and> member_user_id m = u) (map upd xs) = Some (m\<lparr>status := s\<rparr>)"
    if "find (\<lambda>m. member_chat_id m = c \<and> member_user_id m = u) xs = Some m" for xs
    using that by (induction xs) (auto simp add: upd_def split: if_splits)
  then have g: "find (\<lambda>m. member_chat_id m = c \<and> member_user_id m = u) (map upd (chat_members db))
                  = Some (m\<lparr>status := s\<rparr>)"
    using f by simp
  have mm: "member_chat_id m = c \<and> member_user_id m = u"
    using f by (auto simp add: find_Some_iff)
  show ?thesis
    using assms nz g mm
    by (simp add: sender_membership_def chat_member_update_def Let_def chat_member_read_def
        upd_def[symmetric])
qed

section \<open>Claims\<close>

subsection \<open>Convergence\<close>

text \<open>
  Claim C1, as stated, fails: a successful fetch does not always leave the persisted keys
  equal to the remote keys.  When the endpoint reports a key whose transferred bytes are
  \<open>2 ^ 63\<close>, the insert raises OverflowError, the \<^verbatim>\<open>except\<close> branch swallows it, the
  session is left without a commit and the store still holds no key of the server.
\<close>

theorem convergence_fails_beyond_integer_range:
  "server_read edge_only_db (Some 3405803785) = Some edge_server
   \<and> get_keys decimal_int huge_vpn = Inr [huge_key]
   \<and> used_bytes huge_key = MAX_SQLITE_INT + 1
   \<and> execute edge_only_db (Insert [insert_row 3405803785 huge_key]) = Inl OverflowError
   \<and> server_key_sync decimal_int edge_only_db (Some 3405803785) huge_vpn
        = (edge_only_db, Inr (KeyList []))
   \<and> set (map db_key (filter (\<lambda>row. server_ip row = 3405803785)
         (server_key (fst (server_key_sync decimal_int edge_only_db (Some 3405803785) huge_vpn)))))
        \<noteq> set [huge_key]"
proof -
  have h1: "server_read edge_only_db (Some 3405803785) = Some edge_server"
    by (simp add: server_read_def edge_only_db_def edge_server_def)
  have h2: "get_keys decimal_int huge_vpn = Inr [huge_key]"
    by (simp add: get_keys_def huge_vpn_def read_json_def get_transferred_data_def
        decimal_int_def huge_key_def)
  have h3: "used_bytes huge_key = MAX_SQLITE_INT + 1"
    by (simp add: huge_key_def MAX_SQLITE_INT_def)
  have h4: "execute edge_only_db (Insert [insert_row 3405803785 huge_key]) = Inl OverflowError"
    by (simp add: insert_row_def huge_key_def storable_row_def storable_def MAX_SQLITE_INT_def)
  have h5: "server_key_sync decimal_int edge_only_db (Some 3405803785) huge_vpn
        = (edge_only_db, Inr (KeyList []))"
    apply (simp add: server_key_sync_def issued_statements_def h1 h2 Let_def)
    apply (simp add: sync_statements_def server_key_list_def edge_only_db_def insert_values_def
        keys_to_delete_def keys_to_update_def insert_row_def huge_key_def storable_row_def
        storable_def MAX_SQLITE_INT_def)
    done
  have h6: "set (map db_key (filter (\<lambda>row. server_ip row = 3405803785)
         (server_key (fst (server_key_sync decimal_int edge_only_db (Some 3405803785) huge_vpn)))))
        \<noteq> set [huge_key]"
    by (simp add: h5) (simp add: edge_only_db_def)
  from h1 h2 h3 h4 h5 h6 show ?thesis by (simp only: simp_thms)
qed

text \<open>
  Claim C1, amended.  For a server present in a valid store, a call of \<open>server_key_sync\<close>
  whose remote fetch succeeds with one key per key id, every key id, port and used-bytes
  count of which is a storable (signed 64-bit) integer, leaves the persisted keys of that
  server equal to the remote keys: the rows of the server, read as \<open>OutlineKey\<close> values
  (id, name, password, port, method, access\_url, used\_bytes), are exactly the remote
  keys, one row per primary key.  The rows of other servers and the whole server table,
  hence the server's own name, url and active flag, are unchanged, the store is valid
  again, and the call returns the refreshed list.
\<close>

theorem server_key_sync_converges:
  assumes "valid_store db"
    and "server_read db (Some a) = Some server"
    and "get_keys py_int vpn = Inr vpn_keys"
    and "distinct (map key_id vpn_keys)"
    and "list_all storable_key vpn_keys"
    and "server_key_sync py_int db (Some a) vpn = (db', result)"
  shows "set (map db_key (filter (\<lambda>row. server_ip row = a) (server_key db'))) = set vpn_keys
       \<and> distinct (map primary_key (server_key db'))
       \<and> valid_store db'
       \<and> filter (\<lambda>row. server_ip row \<noteq> a) (server_key db')
           = filter (\<lambda>row. server_ip row \<noteq> a) (server_key db)
       \<and> outline_server db' = outline_server db
       \<and> server_read db' (Some a) = Some server
       \<and> result = Inr (KeyList (server_key_list db' (Some a)))"
proof -
  have pk: "distinct (map primary_key (server_key db))"
    and sd: "list_all storable_row (server_key db)"
    and ss: "list_all (\<lambda>server. storable (int (ip server))) (outline_server db)"
    using assms(1) by (simp_all add: valid_store_def)
  have sa: "storable (int a)" using assms(1,2) by (rule valid_store_address)
  have eq: "server_key_sync py_int db (Some a) vpn =
           (db\<lparr>server_key := synced_table db a vpn_keys\<rparr>,
            Inr (KeyList (server_key_list (db\<lparr>server_key := synced_table db a vpn_keys\<rparr>) (Some a))))"
    using assms(2,3,4,1,5) by (rule server_key_sync_success)
  then have db': "db' = db\<lparr>server_key := synced_table db a vpn_keys\<rparr>"
    and res: "result = Inr (KeyList (server_key_list db' (Some a)))"
    using assms(6) by simp_all
  have "db_key ` {row \<in> set (synced_table db a vpn_keys). server_ip row = a} = set vpn_keys"
    using pk assms(4) by (rule synced_table_converges)
  then have 1: "set (map db_key (filter (\<lambda>row. server_ip row = a) (server_key db'))) = set vpn_keys"
    by (simp add: db')
  have 2: "distinct (map primary_key (server_key db'))"
    using synced_table_distinct[OF pk assms(4)] by (simp add: db')
  have "list_all storable_row (synced_table db a vpn_keys)"
    using sa assms(5) sd by (rule synced_table_storable)
  then have 3: "valid_store db'"
    using 2 ss by (simp add: valid_store_def db')
  have 4: "filter (\<lambda>row. server_ip row \<noteq> a) (server_key db')
           = filter (\<lambda>row. server_ip row \<noteq> a) (server_key db)"
    by (simp add: db' synced_table_other_servers)
  have 5: "outline_server db' = outline_server db" by (simp add: db')
  have 6: "server_read db' (Some a) = Some server"
    using assms(2) by (simp add: server_read_def db')
  from 1 2 3 4 5 6 res show ?thesis by simp
qed

theorem server_key_sync_converges_witness:
  "valid_store stale_db
   \<and> server_read stale_db (Some 3405803785) = Some edge_server
   \<and> get_keys decimal_int edge_vpn = Inr edge_keys
   \<and> distinct (map key_id edge_keys)
   \<and> list_all storable_key edge_keys
   \<and> set (map db_key (filter (\<lambda>row. server_ip row = 3405803785)
         (server_key (fst (server_key_sync decimal_int stale_db (Some 3405803785) edge_vpn))))) = set edge_keys
   \<and> outline_server (fst (server_key_sync decimal_int stale_db (Some 3405803785) edge_vpn)) = [edge_server]
   \<and> server_key (fst (server_key_sync decimal_int stale_db (Some 3405803785) edge_vpn)) =
        [\<lparr>key_id = 2, name = ''bob'', password = ''pw2'', port = 4432, method = ''chacha20-ietf-poly1305'',
          access_url = ''ss://bob'', used_bytes = 2048, server_ip = 3405803785\<rparr>,
         \<lparr>key_id = 2, name = ''zed'', password = ''pw9'', port = 9, method = ''chacha20-ietf-poly1305'',
          access_url = ''ss://zed'', used_bytes = 0, server_ip = 7\<rparr>,
         \<lparr>key_id = 3, name = ''alice'', password = ''pw3'', port = 4433, method = ''chacha20-ietf-poly1305'',
          access_url = ''ss://alice'', used_bytes = 0, server_ip = 3405803785\<rparr>]"
proof -
  have h1: "valid_store stale_db"
    by (simp add: valid_store_def stale_db_def primary_key_def edge_server_def storable_row_def
        storable_def MAX_SQLITE_INT_def)
  have h2: "server_read stale_db (Some 3405803785) = Some edge_server"
    by (simp add: server_read_def stale_db_def edge_server_def)
  have h3: "get_keys decimal_int edge_vpn = Inr edge_keys"
    by (simp add: get_keys_def edge_vpn_def read_json_def get_transferred_data_def
        decimal_int_def edge_keys_def)
  have h4: "distinct (map key_id edge_keys)"
    by (simp add: edge_keys_def)
  have h4': "list_all storable_key edge_keys"
    by (simp add: edge_keys_def storable_key_def storable_def MAX_SQLITE_INT_def)
  have h5: "server_key_sync decimal_int stale_db (Some 3405803785) edge_vpn
              = (fst (server_key_sync decimal_int stale_db (Some 3405803785) edge_vpn),
                 snd (server_key_sync decimal_int stale_db (Some 3405803785) edge_vpn))"
    by simp
  have h6: "outline_server stale_db = [edge_server]" by (simp add: stale_db_def)
  have h7: "server_key (fst (server_key_sync decimal_int stale_db (Some 3405803785) edge_vpn)) =
        [\<lparr>key_id = 2, name = ''bob'', password = ''pw2'', port = 4432, method = ''chacha20-ietf-poly1305'',
          access_url = ''ss://bob'', used_bytes = 2048, server_ip = 3405803785\<rparr>,
         \<lparr>key_id = 2, name = ''zed'', password = ''pw9'', port = 9, method = ''chacha20-ietf-poly1305'',
          access_url = ''ss://zed'', used_bytes = 0, server_ip = 7\<rparr>,
         \<lparr>key_id = 3, name = ''alice'', password = ''pw3'', port = 4433, method = ''chacha20-ietf-poly1305'',
          access_url = ''ss://alice'', used_bytes = 0, server_ip = 3405803785\<rparr>]"
    apply (simp add: server_key_sync_def issued_statements_def h2 h3 Let_def)
    apply (simp add: sync_statements_def server_key_list_def stale_db_def edge_keys_def
        insert_values_def keys_to_delete_def keys_to_update_def db_key_def insert_row_def
        update_values_def primary_key_def edge_server_def storable_row_def storable_def
        MAX_SQLITE_INT_def)
    done
  from server_key_sync_converges[OF h1 h2 h3 h4 h4' h5] h1 h2 h3 h4 h4' h6 h7 show ?thesis
    by (simp only: simp_thms)
qed

subsection \<open>Remote failure\<close>

text \<open>
  Claim C2.  For a server present in storage, when a remote fetch fails, whether the key
  list or the metrics request meets a network error, a status outside 2xx or an unreadable
  body, or \<open>get_keys\<close> raises for any other reason, \<open>server_key_sync\<close> builds no
  statement, leaves the store exactly as it was and returns (does not raise) the persisted
  key list of before the call.
\<close>

theorem server_key_sync_remote_failure:
  assumes "server_read db (Some a) = Some server"
    and "fetch_fails (keys_response vpn) \<or> fetch_fails (metrics_response vpn)
         \<or> isl (get_keys py_int vpn)"
  shows "server_key_sync py_int db (Some a) vpn = (db, Inr (KeyList (server_key_list db (Some a))))
       \<and> isl (issued_statements py_int db a vpn)"
proof -
  have "isl (get_keys py_int vpn)"
    using assms(2) get_keys_fetch_fails[of vpn py_int] by blast
  then obtain e where e: "get_keys py_int vpn = Inl e" by (auto simp add: isl_def)
  have "server_key_sync py_int db (Some a) vpn = (db, Inr (KeyList (server_key_list db (Some a))))"
    using assms(1) e by (rule server_key_sync_failure)
  moreover have "isl (issued_statements py_int db a vpn)"
    using e by (simp add: issued_statements_def)
  ultimately show ?thesis by simp
qed

theorem server_key_sync_remote_failure_witness:
  "server_read stale_db (Some 3405803785) = Some edge_server
   \<and> keys_response outage_vpn = keys_response edge_vpn
   \<and> metrics_response outage_vpn = Response 503 UnreadableBody
   \<and> fetch_fails (metrics_response outage_vpn)
   \<and> get_keys decimal_int outage_vpn = Inl UnableToRetrieveKeys
   \<and> server_key_sync decimal_int stale_db (Some 3405803785) outage_vpn
       = (stale_db, Inr (KeyList (server_key_list stale_db (Some 3405803785))))
   \<and> server_key_list stale_db (Some 3405803785) =
        [\<lparr>key_id = 2, name = ''bob'', password = ''pw2'', port = 4432, method = ''chacha20-ietf-poly1305'',
          access_url = ''ss://bob'', used_bytes = 10, server_ip = 3405803785\<rparr>,
         \<lparr>key_id = 1, name = ''carol'', password = ''pw1'', port = 4431, method = ''chacha20-ietf-poly1305'',
          access_url = ''ss://carol'', used_bytes = 5, server_ip = 3405803785\<rparr>]"
proof -
  have h1: "server_read stale_db (Some 3405803785) = Some edge_server"
    by (simp add: server_read_def stale_db_def edge_server_def)
  have h2: "fetch_fails (metrics_response outage_vpn)"
    by (simp add: outage_vpn_def fetch_fails_def)
  have h3: "keys_response outage_vpn = keys_response edge_vpn"
    "metrics_response outage_vpn = Response 503 UnreadableBody"
    by (simp_all add: outage_vpn_def)
  have h4: "get_keys decimal_int outage_vpn = Inl UnableToRetrieveKeys"
    by (simp add: get_keys_def outage_vpn_def edge_vpn_def read_json_def get_transferred_data_def)
  have h5: "server_key_list stale_db (Some 3405803785) =
        [\<lparr>key_id = 2, name = ''bob'', password = ''pw2'', port = 4432, method = ''chacha20-ietf-poly1305'',
          access_url = ''ss://bob'', used_bytes = 10, server_ip = 3405803785\<rparr>,
         \<lparr>key_id = 1, name = ''carol'', password = ''pw1'', port = 4431, method = ''chacha20-ietf-poly1305'',
          access_url = ''ss://carol'', used_bytes = 5, server_ip = 3405803785\<rparr>]"
    by (simp add: server_key_list_def stale_db_def)
  have h6: "fetch_fails (keys_response outage_vpn) \<or> fetch_fails (metrics_response outage_vpn)
         \<or> isl (get_keys decimal_int outage_vpn)"
    using h2 by simp
  from server_key_sync_remote_failure[OF h1 h6] h1 h2 h3 h4 h5 show ?thesis
    by (simp only: simp_thms)
qed

subsection \<open>The three write sets\<close>

text \<open>
  Claim C3, as stated, fails: the write sets are not pairwise disjoint by key id.  With an
  empty store and one remote key, that key is inserted and also updated.
\<close>

theorem write_sets_overlap:
  "key_id ` set (insert_values 3405803785 [] [alice_key]) = {3}
   \<and> key_id ` set (keys_to_update [] [alice_key]) = {3}
   \<and> key_id ` set (insert_values 3405803785 [] [alice_key])
       \<inter> key_id ` set (keys_to_update [] [alice_key]) \<noteq> {}
   \<and> sync_statements 3405803785 [] [alice_key]
       = [Insert [insert_row 3405803785 alice_key], Update 3405803785 3 alice_key]"
  by (simp add: insert_values_def keys_to_update_def keys_to_delete_def sync_statements_def
      alice_key_def insert_row_def)

text \<open>
  Claim C3, amended.  By key id, to-insert is the remote ids absent locally and to-delete
  the local ids absent remotely; to-delete is disjoint from to-insert and from to-update;
  the to-update ids that are not to-insert ids are exactly the ids present on both sides
  whose field values differ; and a key present on both sides with identical field values
  is written by no statement of the session.
\<close>

theorem sync_write_sets:
  assumes "distinct (map key_id db_keys)"
    and "distinct (map key_id vpn_keys)"
  shows "key_id ` set (insert_values a db_keys vpn_keys) = key_id ` set vpn_keys - key_id ` set db_keys
       \<and> key_id ` set (keys_to_delete db_keys vpn_keys) = key_id ` set db_keys - key_id ` set vpn_keys
       \<and> key_id ` set (keys_to_update db_keys vpn_keys) - key_id ` set (insert_values a db_keys vpn_keys)
           = {i. \<exists>k \<in> set vpn_keys. \<exists>k' \<in> set db_keys. key_id k = i \<and> key_id k' = i \<and> k \<noteq> k'}
       \<and> key_id ` set (keys_to_delete db_keys vpn_keys) \<inter> key_id ` set (insert_values a db_keys vpn_keys) = {}
       \<and> key_id ` set (keys_to_delete db_keys vpn_keys) \<inter> key_id ` set (keys_to_update db_keys vpn_keys) = {}
       \<and> (\<forall>k. k \<in> set vpn_keys \<and> k \<in> set db_keys \<longrightarrow>
             key_id k \<notin> set (concat (map written_ids (sync_statements a db_keys vpn_keys))))"
proof -
  define I where "I = key_id ` set (insert_values a db_keys vpn_keys)"
  define D where "D = key_id ` set (keys_to_delete db_keys vpn_keys)"
  define U where "U = key_id ` set (keys_to_update db_keys vpn_keys)"
  have inj_v: "k = k'" if "k \<in> set vpn_keys" "k' \<in> set vpn_keys" "key_id k = key_id k'" for k k'
    using assms(2) that by (auto simp add: distinct_map inj_on_def)
  have inj_d: "k = k'" if "k \<in> set db_keys" "k' \<in> set db_keys" "key_id k = key_id k'" for k k'
    using assms(1) that by (auto simp add: distinct_map inj_on_def)
  have I: "I = key_id ` set vpn_keys - key_id ` set db_keys"
    unfolding I_def set_insert_values by (auto simp add: insert_row_fields image_iff)
  have D: "D = key_id ` set db_keys - key_id ` set vpn_keys"
    unfolding D_def set_keys_to_delete by auto
  have U: "U = key_id ` {k \<in> set vpn_keys. k \<notin> set db_keys}"
    unfolding U_def set_keys_to_update by simp
  have UI: "U - I = {i. \<exists>k \<in> set vpn_keys. \<exists>k' \<in> set db_keys. key_id k = i \<and> key_id k' = i \<and> k \<noteq> k'}"
  proof (rule set_eqI, rule iffI)
    fix i assume "i \<in> U - I"
    then obtain k where k: "k \<in> set vpn_keys" "k \<notin> set db_keys" "key_id k = i" "i \<in> key_id ` set db_keys"
      unfolding U I by auto
    then obtain k' where "k' \<in> set db_keys" "key_id k' = i" by auto
    with k show "i \<in> {i. \<exists>k \<in> set vpn_keys. \<exists>k' \<in> set db_keys. key_id k = i \<and> key_id k' = i \<and> k \<noteq> k'}"
      by blast
  next
    fix i assume "i \<in> {i. \<exists>k \<in> set vpn_keys. \<exists>k' \<in> set db_keys. key_id k = i \<and> key_id k' = i \<and> k \<noteq> k'}"
    then obtain k k' where k: "k \<in> set vpn_keys" "k' \<in> set db_keys" "key_id k = i" "key_id k' = i" "k \<noteq> k'"
      by blast
    have "k \<notin> set db_keys"
    proof
      assume "k \<in> set db_keys"
      then have "k = k'" using k by (simp add: inj_d)
      with k(5) show False by simp
    qed
    then have "i \<in> U" unfolding U using k(1,3) by auto
    moreover have "i \<notin> I" unfolding I using k(2,4) by auto
    ultimately show "i \<in> U - I" by simp
  qed
  have DI: "D \<inter> I = {}" unfolding D I by blast
  have DU: "D \<inter> U = {}" unfolding D U by auto
  have same: "key_id k \<notin> I \<union> D \<union> U" if "k \<in> set vpn_keys" "k \<in> set db_keys" for k
  proof -
    have "key_id k \<notin> I" unfolding I using that by auto
    moreover have "key_id k \<notin> D" unfolding D using that by auto
    moreover have "key_id k \<notin> U"
    proof
      assume "key_id k \<in> U"
      then obtain u where u: "u \<in> set vpn_keys" "u \<notin> set db_keys" "key_id u = key_id k"
        unfolding U by auto
      then have "u = k" using that(1) by (simp add: inj_v)
      with u(2) that(2) show False by simp
    qed
    ultimately show ?thesis by simp
  qed
  have W: "set (concat (map written_ids (sync_statements a db_keys vpn_keys))) = I \<union> D \<union> U"
    unfolding I_def D_def U_def by (rule written_ids_sync_statements)
  have none: "\<forall>k. k \<in> set vpn_keys \<and> k \<in> set db_keys \<longrightarrow>
             key_id k \<notin> set (concat (map written_ids (sync_statements a db_keys vpn_keys)))"
    unfolding W using same by blast
  note facts = I[unfolded I_def] D[unfolded D_def] UI[unfolded U_def I_def]
    DI[unfolded D_def I_def] DU[unfolded D_def U_def] none
  show ?thesis
    by (intro conjI) (rule facts)+
qed

theorem sync_write_sets_witness:
  "distinct (map key_id local_keys) \<and> distinct (map key_id remote_keys)
   \<and> dave_key \<in> set remote_keys \<and> dave_key \<in> set local_keys
   \<and> key_id ` set (insert_values 3405803785 local_keys remote_keys) = {3}
   \<and> key_id ` set (keys_to_delete local_keys remote_keys) = {1}
   \<and> key_id ` set (keys_to_update local_keys remote_keys)
        - key_id ` set (insert_values 3405803785 local_keys remote_keys) = {2}
   \<and> 4 \<notin> set (concat (map written_ids (sync_statements 3405803785 local_keys remote_keys)))"
proof -
  have h1: "distinct (map key_id local_keys)" by (simp add: local_keys_def dave_key_def)
  have h2: "distinct (map key_id remote_keys)" by (simp add: remote_keys_def alice_key_def dave_key_def)
  have ids: "key_id ` set remote_keys - key_id ` set local_keys = {3}"
    "key_id ` set local_keys - key_id ` set remote_keys = {1}"
    by (auto simp add: local_keys_def remote_keys_def alice_key_def dave_key_def)
  have dave: "dave_key \<in> set remote_keys" "dave_key \<in> set local_keys"
    by (simp_all add: local_keys_def remote_keys_def)
  have bob: "{i. \<exists>k \<in> set remote_keys. \<exists>k' \<in> set local_keys. key_id k = i \<and> key_id k' = i \<and> k \<noteq> k'} = {2}"
    by (auto simp add: local_keys_def remote_keys_def alice_key_def dave_key_def)
  note t = sync_write_sets[OF h1 h2, of 3405803785]
  have i: "key_id ` set (insert_values 3405803785 local_keys remote_keys) = {3}"
    using t[THEN conjunct1] ids(1) by (rule trans)
  have d: "key_id ` set (keys_to_delete local_keys remote_keys) = {1}"
    using t[THEN conjunct2, THEN conjunct1] ids(2) by (rule trans)
  have u: "key_id ` set (keys_to_update local_keys remote_keys)
        - key_id ` set (insert_values 3405803785 local_keys remote_keys) = {2}"
    using t[THEN conjunct2, THEN conjunct2, THEN conjunct1] bob by (rule trans)
  have "key_id dave_key
          \<notin> set (concat (map written_ids (sync_statements 3405803785 local_keys remote_keys)))"
    using t[THEN conjunct2, THEN conjunct2, THEN conjunct2, THEN conjunct2, THEN conjunct2] dave
    by blast
  moreover have "key_id dave_key = 4" by (simp add: dave_key_def)
  ultimately have n: "4 \<notin> set (concat (map written_ids (sync_statements 3405803785 local_keys remote_keys)))"
    by simp
  from h1 h2 dave i d u n show ?thesis by (simp only: simp_thms)
qed

subsection \<open>Idempotence\<close>

text \<open>
  Claim C4, as stated, fails: the second run does not always issue zero writes.  When the
  endpoint reports a key whose transferred bytes are \<open>2 ^ 63\<close>, the first run's insert
  raises OverflowError and nothing is committed, so the second run finds the same
  difference and builds the same insert and update again.
\<close>

theorem second_run_repeats_writes_beyond_integer_range:
  "server_read edge_only_db (Some 3405803785) = Some edge_server
   \<and> get_keys decimal_int huge_vpn = Inr [huge_key]
   \<and> server_key_sync decimal_int edge_only_db (Some 3405803785) huge_vpn
        = (edge_only_db, Inr (KeyList []))
   \<and> issued_statements decimal_int
        (fst (server_key_sync decimal_int edge_only_db (Some 3405803785) huge_vpn)) 3405803785 huge_vpn
        = Inr [Insert [insert_row 3405803785 huge_key], Update 3405803785 9 huge_key]
   \<and> (case issued_statements decimal_int
              (fst (server_key_sync decimal_int edge_only_db (Some 3405803785) huge_vpn))
              3405803785 huge_vpn of
         Inl e \<Rightarrow> [] | Inr statements \<Rightarrow> statements) \<noteq> []"
proof -
  have h1: "server_read edge_only_db (Some 3405803785) = Some edge_server"
    by (simp add: server_read_def edge_only_db_def edge_server_def)
  have h2: "get_keys decimal_int huge_vpn = Inr [huge_key]"
    by (simp add: get_keys_def huge_vpn_def read_json_def get_transferred_data_def
        decimal_int_def huge_key_def)
  have h3: "server_key_sync decimal_int edge_only_db (Some 3405803785) huge_vpn
        = (edge_only_db, Inr (KeyList []))"
    apply (simp add: server_key_sync_def issued_statements_def h1 h2 Let_def)
    apply (simp add: sync_statements_def server_key_list_def edge_only_db_def insert_values_def
        keys_to_delete_def keys_to_update_def insert_row_def huge_key_def storable_row_def
        storable_def MAX_SQLITE_INT_def)
    done
  have h4: "issued_statements decimal_int edge_only_db 3405803785 huge_vpn
        = Inr [Insert [insert_row 3405803785 huge_key], Update 3405803785 9 huge_key]"
    apply (simp add: issued_statements_def h2)
    apply (simp add: sync_statements_def server_key_list_def edge_only_db_def insert_values_def
        keys_to_delete_def keys_to_update_def huge_key_def)
    done
  from h1 h2 h3 h4 show ?thesis by simp
qed

text \<open>
  Claim C4, amended.  For a server present in a valid store and a fixed remote answer
  (when the fetch succeeds: one key per id, with storable key ids, ports and used-bytes
  counts), a second \<open>server_key_sync\<close> right after the first builds no insert, update or
  delete statement, leaves the store as the first run left it and returns the same key
  list as the first run.
\<close>

theorem server_key_sync_idempotent:
  assumes "valid_store db"
    and "server_read db (Some a) = Some server"
    and "\<forall>vpn_keys. get_keys py_int vpn = Inr vpn_keys
           \<longrightarrow> distinct (map key_id vpn_keys) \<and> list_all storable_key vpn_keys"
    and "server_key_sync py_int db (Some a) vpn = (db1, result1)"
    and "server_key_sync py_int db1 (Some a) vpn = (db2, result2)"
  shows "(case issued_statements py_int db1 a vpn of Inl e \<Rightarrow> [] | Inr statements \<Rightarrow> statements) = []
       \<and> db2 = db1 \<and> result2 = result1"
proof (cases "get_keys py_int vpn")
  case (Inl e)
  have "server_key_sync py_int db (Some a) vpn = (db, Inr (KeyList (server_key_list db (Some a))))"
    using assms(2) Inl by (rule server_key_sync_failure)
  then have 1: "db1 = db" "result1 = Inr (KeyList (server_key_list db (Some a)))"
    using assms(4) by simp_all
  then have "server_key_sync py_int db1 (Some a) vpn = (db, Inr (KeyList (server_key_list db (Some a))))"
    using assms(2) Inl by (simp add: server_key_sync_failure)
  then have 2: "db2 = db" "result2 = Inr (KeyList (server_key_list db (Some a)))"
    using assms(5) by simp_all
  show ?thesis using 1 2 Inl by (simp add: issued_statements_def)
next
  case (Inr vpn_keys)
  then have dv: "distinct (map key_id vpn_keys)" and sv: "list_all storable_key vpn_keys"
    using assms(3) by simp_all
  have pk: "distinct (map primary_key (server_key db))"
    using assms(1) by (simp add: valid_store_def)
  have conv: "set (map db_key (filter (\<lambda>row. server_ip row = a) (server_key db1))) = set vpn_keys"
    and srv1: "server_read db1 (Some a) = Some server"
    and r1: "result1 = Inr (KeyList (server_key_list db1 (Some a)))"
    using server_key_sync_success[OF assms(2) Inr dv assms(1) sv] assms(4)
      synced_table_converges[OF pk dv, of a] assms(2)
    by (auto simp add: server_read_def)
  have "set (map db_key (server_key_list db1 (Some a))) = set vpn_keys"
    using conv by (simp add: server_key_list_def)
  then have none: "sync_statements a (map db_key (server_key_list db1 (Some a))) vpn_keys = []"
    by (rule sync_statements_converged)
  then have iss: "issued_statements py_int db1 a vpn = Inr []"
    using Inr by (simp add: issued_statements_def)
  then have "server_key_sync py_int db1 (Some a) vpn = (db1, Inr (KeyList (server_key_list db1 (Some a))))"
    using srv1 by (simp add: server_key_sync_def)
  then have "db2 = db1" "result2 = result1" using assms(5) r1 by simp_all
  then show ?thesis using iss by simp
qed

theorem server_key_sync_idempotent_witness:
  "valid_store stale_db
   \<and> server_read stale_db (Some 3405803785) = Some edge_server
   \<and> get_keys decimal_int edge_vpn = Inr edge_keys
   \<and> distinct (map key_id edge_keys)
   \<and> list_all storable_key edge_keys
   \<and> synced_db \<noteq> stale_db
   \<and> issued_statements decimal_int synced_db 3405803785 edge_vpn = Inr []
   \<and> server_key_sync decimal_int synced_db (Some 3405803785) edge_vpn
        = (synced_db, snd (server_key_sync decimal_int stale_db (Some 3405803785) edge_vpn))"
proof -
  have h1: "valid_store stale_db"
    by (simp add: valid_store_def stale_db_def primary_key_def edge_server_def storable_row_def
        storable_def MAX_SQLITE_INT_def)
  have h2: "server_read stale_db (Some 3405803785) = Some edge_server"
    by (simp add: server_read_def stale_db_def edge_server_def)
  have k: "get_keys decimal_int edge_vpn = Inr edge_keys"
    by (simp add: get_keys_def edge_vpn_def read_json_def get_transferred_data_def
        decimal_int_def edge_keys_def)
  have sk: "list_all storable_key edge_keys"
    by (simp add: edge_keys_def storable_key_def storable_def MAX_SQLITE_INT_def)
  have dk: "distinct (map key_id edge_keys)" by (simp add: edge_keys_def)
  have h3: "\<forall>vpn_keys. get_keys decimal_int edge_vpn = Inr vpn_keys
              \<longrightarrow> distinct (map key_id vpn_keys) \<and> list_all storable_key vpn_keys"
    using sk dk by (simp add: k)
  have h4: "server_key_sync decimal_int stale_db (Some 3405803785) edge_vpn
              = (synced_db, snd (server_key_sync decimal_int stale_db (Some 3405803785) edge_vpn))"
    by (simp add: synced_db_def)
  have h5: "server_key_sync decimal_int synced_db (Some 3405803785) edge_vpn
              = (fst (server_key_sync decimal_int synced_db (Some 3405803785) edge_vpn),
                 snd (server_key_sync decimal_int synced_db (Some 3405803785) edge_vpn))"
    by simp
  have "length (server_key synced_db) = 3"
    unfolding synced_db_def
    apply (simp add: server_key_sync_def issued_statements_def h2 k Let_def)
    apply (simp add: sync_statements_def server_key_list_def stale_db_def edge_keys_def
        insert_values_def keys_to_delete_def keys_to_update_def db_key_def insert_row_def
        update_values_def primary_key_def edge_server_def storable_row_def storable_def
        MAX_SQLITE_INT_def)
    done
  moreover have "server_key stale_db \<noteq> [] \<and> map used_bytes (server_key stale_db) = [5, 10, 0]"
    by (simp add: stale_db_def)
  moreover have "map used_bytes (server_key synced_db) = [2048, 0, 0]"
    unfolding synced_db_def
    apply (simp add: server_key_sync_def issued_statements_def h2 k Let_def)
    apply (simp add: sync_statements_def server_key_list_def stale_db_def edge_keys_def
        insert_values_def keys_to_delete_def keys_to_update_def db_key_def insert_row_def
        update_values_def primary_key_def edge_server_def storable_row_def storable_def
        MAX_SQLITE_INT_def)
    done
  ultimately have h6: "synced_db \<noteq> stale_db" by auto
  have st: "(case issued_statements decimal_int synced_db 3405803785 edge_vpn of
               Inl e \<Rightarrow> [] | Inr statements \<Rightarrow> statements) = []"
    and fx: "fst (server_key_sync decimal_int synced_db (Some 3405803785) edge_vpn) = synced_db"
    and rs: "snd (server_key_sync decimal_int synced_db (Some 3405803785) edge_vpn)
               = snd (server_key_sync decimal_int stale_db (Some 3405803785) edge_vpn)"
    using server_key_sync_idempotent[OF h1 h2 h3 h4 h5] by simp_all
  have "issued_statements decimal_int synced_db 3405803785 edge_vpn = Inr []"
    using st k by (simp add: issued_statements_def)
  moreover have "server_key_sync decimal_int synced_db (Some 3405803785) edge_vpn
        = (synced_db, snd (server_key_sync decimal_int stale_db (Some 3405803785) edge_vpn))"
    using fx rs h5 by simp
  ultimately show ?thesis using h1 h2 k dk sk h6 by (simp only: simp_thms)
qed

subsection \<open>Unknown server\<close>

text \<open>
  Claim C8.  When the server identifier is absent from storage (or not given),
  \<open>server_key_sync\<close> returns the falsy value \<^verbatim>\<open>False\<close>: it does not raise, and the
  store is untouched.
\<close>

theorem server_key_sync_not_found:
  assumes "server_read db server_ip_kw = None"
  shows "server_key_sync py_int db server_ip_kw vpn = (db, Inr PyFalse)"
  using assms by (cases server_ip_kw) (simp_all add: server_key_sync_def)

theorem server_key_sync_not_found_witness:
  "server_read stale_db (Some 167772165) = None
   \<and> server_key_sync decimal_int stale_db (Some 167772165) edge_vpn = (stale_db, Inr PyFalse)"
proof -
  have h: "server_read stale_db (Some 167772165) = None"
    by (simp add: server_read_def stale_db_def edge_server_def)
  from server_key_sync_not_found[OF h] h show ?thesis by simp
qed

subsection \<open>Deleting a key\<close>

text \<open>
  Claim C6.  \<open>server_key_delete\<close> asks the remote server first and touches the local
  table only after the answer: whenever the call changes the store, the delete request for
  that key on that server's management URL was answered with status 204 (and the call
  returns \<^verbatim>\<open>True\<close>); and whenever that request is answered with a status other than
  204, the store is unchanged and the call returns \<^verbatim>\<open>False\<close>.
\<close>

theorem server_key_delete_remote_first:
  assumes "server_key_delete db session server_ip_kw key_id_kw = (db', result)"
  shows "(db' \<noteq> db \<longrightarrow>
            (\<exists>a i server b. server_ip_kw = Some a \<and> key_id_kw = Some i
               \<and> server_read db (Some a) = Some server
               \<and> session (delete_key_request (url server) i) = Response 204 b
               \<and> result = Inr True))
       \<and> (\<forall>a i server status b.
             server_ip_kw = Some a \<and> key_id_kw = Some i \<and> server_read db (Some a) = Some server
             \<and> session (delete_key_request (url server) i) = Response status b \<and> status \<noteq> 204
             \<longrightarrow> db' = db \<and> result = Inr False)"
proof (intro conjI impI allI)
  assume "db' \<noteq> db"
  then show "\<exists>a i server b. server_ip_kw = Some a \<and> key_id_kw = Some i
               \<and> server_read db (Some a) = Some server
               \<and> session (delete_key_request (url server) i) = Response 204 b
               \<and> result = Inr True"
    using assms
    by (auto simp add: server_key_delete_def delete_key_def Let_def
        split: if_splits option.splits sum.splits response.splits
        dest: server_key_changed)
next
  fix a i server status b
  assume "server_ip_kw = Some a \<and> key_id_kw = Some i \<and> server_read db (Some a) = Some server
             \<and> session (delete_key_request (url server) i) = Response status b \<and> status \<noteq> 204"
  then show "db' = db" "result = Inr False"
    using assms by (simp_all add: server_key_delete_def delete_key_def)
qed

theorem server_key_delete_remote_first_witness:
  "server_read stale_db (Some 3405803785) = Some edge_server
   \<and> refusing_session (delete_key_request (url edge_server) 2) = Response 500 UnreadableBody
   \<and> server_key_delete stale_db refusing_session (Some 3405803785) (Some 2) = (stale_db, Inr False)
   \<and> accepting_session (delete_key_request (url edge_server) 2) = Response 204 UnreadableBody
   \<and> snd (server_key_delete stale_db accepting_session (Some 3405803785) (Some 2)) = Inr True
   \<and> map primary_key (server_key (fst (server_key_delete stale_db accepting_session (Some 3405803785) (Some 2))))
        = [(3405803785, 1), (7, 2)]"
proof -
  have h1: "server_read stale_db (Some 3405803785) = Some edge_server"
    by (simp add: server_read_def stale_db_def edge_server_def)
  have h2: "refusing_session (delete_key_request (url edge_server) 2) = Response 500 UnreadableBody"
    by (simp add: refusing_session_def)
  have h3: "server_key_delete stale_db refusing_session (Some 3405803785) (Some 2)
              = (fst (server_key_delete stale_db refusing_session (Some 3405803785) (Some 2)),
                 snd (server_key_delete stale_db refusing_session (Some 3405803785) (Some 2)))"
    by simp
  have "fst (server_key_delete stale_db refusing_session (Some 3405803785) (Some 2)) = stale_db
        \<and> snd (server_key_delete stale_db refusing_session (Some 3405803785) (Some 2)) = Inr False"
    using server_key_delete_remote_first[OF h3, THEN conjunct2, rule_format,
        of 3405803785 2 edge_server 500 UnreadableBody] h1 h2
    by simp
  then have h4: "server_key_delete stale_db refusing_session (Some 3405803785) (Some 2)
                   = (stale_db, Inr False)"
    using h3 by simp
  have h5: "accepting_session (delete_key_request (url edge_server) 2) = Response 204 UnreadableBody"
    by (simp add: accepting_session_def edge_server_def)
  have h6: "server_key_delete stale_db accepting_session (Some 3405803785) (Some 2)
              = (stale_db\<lparr>server_key := filter (\<lambda>row. \<not> (server_ip row = 3405803785 \<and> key_id row = 2))
                                            (server_key stale_db)\<rparr>, Inr True)"
    apply (simp add: server_key_delete_def h1 delete_key_def h5 Let_def)
    apply (simp add: stale_db_def)
    done
  have h7: "snd (server_key_delete stale_db accepting_session (Some 3405803785) (Some 2)) = Inr True"
    by (simp add: h6)
  have h8: "map primary_key (server_key (fst (server_key_delete stale_db accepting_session
              (Some 3405803785) (Some 2)))) = [(3405803785, 1), (7, 2)]"
    by (simp add: h6) (simp add: stale_db_def primary_key_def)
  from h1 h2 h4 h5 h7 h8 show ?thesis by (simp only: simp_thms)
qed

subsection \<open>Setting a data limit\<close>

text \<open>
  Claim C9 does not hold of the code.  For the server at
  \<^verbatim>\<open>https://mgmt.example/abc\<close>, key 5 and a limit of 1000 bytes, \<open>add_data_limit\<close> sends
  its PUT to the literal text \<^verbatim>\<open>self.__keys_url/5/data-limit\<close>, not to a path under the
  server's management URL; the sibling \<open>rename_key\<close> does substitute the URL.
\<close>

theorem add_data_limit_literal_url:
  "request_url (add_data_limit_request ''https://mgmt.example/abc'' 5 1000) = ''self.__keys_url/5/data-limit''
   \<and> request_url (add_data_limit_request ''https://mgmt.example/abc'' 5 1000)
        \<noteq> ''https://mgmt.example/abc/access-keys/5/data-limit''
   \<and> request_url (rename_key_request ''https://mgmt.example/abc'' 5 ''alice'')
        = ''https://mgmt.example/abc/access-keys//5/name''"
  by (simp add: add_data_limit_request_def rename_key_request_def keys_url_def str_int_def str_nat.simps)

subsection \<open>Listing servers by activity\<close>

text \<open>
  Claim C10.  In every store, \<open>servers_list\<close> with mode \<^verbatim>\<open>'active'\<close> returns the empty
  list and so does mode \<^verbatim>\<open>'inactive'\<close>: the filter is the constant
  \<^verbatim>\<open>OutlineServer.is_active is True\<close> (respectively \<^verbatim>\<open>is False\<close>), which no row
  satisfies.  Mode \<^verbatim>\<open>'all'\<close>, also the default, returns every server.
\<close>

theorem servers_list_filter_never_matches:
  "servers_list db (Some ''active'') = []
   \<and> servers_list db (Some ''inactive'') = []
   \<and> servers_list db (Some ''all'') = outline_server db
   \<and> servers_list db None = outline_server db"
  by (simp add: servers_list_def is_active_is_def)

subsection \<open>The new-server dialogue keeps the name while the address is retried\<close>

text \<open>
  Claim C7.  In state \<open>enter_ip\<close> with a pending \<^verbatim>\<open>server_name\<close>, a text that does not
  parse as an address leaves the context exactly as it was (state \<open>enter_ip\<close>, the name
  kept, no \<^verbatim>\<open>server_ip\<close> stored) and answers with the re-prompt; a text that parses
  stores \<^verbatim>\<open>server_ip\<close>, keeps the name and moves to \<open>enter_url\<close>.
\<close>

theorem enter_server_ip_carries_name:
  assumes "state ctx = Some enter_ip"
    and "data ctx ''server_name'' = Some stored_name"
  shows "(ip_address text = None \<longrightarrow>
            enter_server_ip ip_address str ctx text = Inr (ctx, [WrongIPAddress]))
       \<and> (\<forall>addr. ip_address text = Some addr \<longrightarrow>
            (\<exists>ctx'. enter_server_ip ip_address str ctx text
                       = Inr (ctx', [PleaseEnterServerUrl stored_name (str addr)])
               \<and> state ctx' = Some enter_url
               \<and> data ctx' ''server_ip'' = Some (Str (str addr))
               \<and> data ctx' ''server_name'' = Some stored_name))"
  using assms by (auto simp add: enter_server_ip_def)

theorem enter_server_ip_carries_name_witness:
  "new_server \<lparr>state = None, data = Map.empty\<rparr> ''/newserver''
     = Inr (\<lparr>state = Some enter_name, data = Map.empty\<rparr>, [PleaseEnterServerName])
   \<and> enter_server_name ascii_strip \<lparr>state = Some enter_name, data = Map.empty\<rparr> ''MyServer''
     = Inr (named_ctx, [PleaseEnterServerIP ''MyServer''])
   \<and> state named_ctx = Some enter_ip
   \<and> data named_ctx ''server_name'' = Some (Str ''MyServer'')
   \<and> ipv4_address ''999.999.999.999'' = None
   \<and> enter_server_ip ipv4_address ipv4_str named_ctx ''999.999.999.999''
     = Inr (named_ctx, [WrongIPAddress])
   \<and> ipv4_address ''10.0.0.5'' = Some 167772165
   \<and> enter_server_ip ipv4_address ipv4_str named_ctx ''10.0.0.5''
     = Inr (\<lparr>state = Some enter_url,
             data = [''server_name'' \<mapsto> Str ''MyServer'', ''server_ip'' \<mapsto> Str ''10.0.0.5'']\<rparr>,
            [PleaseEnterServerUrl (Str ''MyServer'') ''10.0.0.5''])"
proof -
  have h0: "new_server \<lparr>state = None, data = Map.empty\<rparr> ''/newserver''
     = Inr (\<lparr>state = Some enter_name, data = Map.empty\<rparr>, [PleaseEnterServerName])"
    by (simp add: new_server_def)
  have h1: "enter_server_name ascii_strip \<lparr>state = Some enter_name, data = Map.empty\<rparr> ''MyServer''
     = Inr (named_ctx, [PleaseEnterServerIP ''MyServer''])"
    by (simp add: enter_server_name_def ascii_strip_def named_ctx_def)
  have h2: "state named_ctx = Some enter_ip" by (simp add: named_ctx_def)
  have h3: "data named_ctx ''server_name'' = Some (Str ''MyServer'')" by (simp add: named_ctx_def)
  have h4: "ipv4_address ''999.999.999.999'' = None"
    by (simp add: ipv4_address_def decimal_int_def)
  have h5: "ipv4_address ''10.0.0.5'' = Some 167772165"
    by (simp add: ipv4_address_def decimal_int_def)
  have h6: "ipv4_str 167772165 = ''10.0.0.5''"
    by (simp add: ipv4_str_def str_nat.simps)
  note t = enter_server_ip_carries_name[OF h2 h3, of ipv4_address _ ipv4_str]
  have h7: "enter_server_ip ipv4_address ipv4_str named_ctx ''999.999.999.999''
     = Inr (named_ctx, [WrongIPAddress])"
    using t[of "''999.999.999.999''", THEN conjunct1] h4 by simp
  have h8: "enter_server_ip ipv4_address ipv4_str named_ctx ''10.0.0.5''
     = Inr (\<lparr>state = Some enter_url,
             data = [''server_name'' \<mapsto> Str ''MyServer'', ''server_ip'' \<mapsto> Str ''10.0.0.5'']\<rparr>,
            [PleaseEnterServerUrl (Str ''MyServer'') ''10.0.0.5''])"
    by (simp add: enter_server_ip_def h5 h6 named_ctx_def)
  from h0 h1 h2 h3 h4 h7 h5 h8 show ?thesis by (simp only: simp_thms)
qed

subsection \<open>The membership tracker when the member is absent on both sides\<close>

text \<open>
  Claim C5 does not hold of the code in its first case.  For the first message of a user
  in a group, when \<^verbatim>\<open>get_member\<close> raises for the sender and no ChatMember row exists,
  \<open>pre_process\<close> does not do nothing: it raises AttributeError after the user and the
  chat were upserted, and the three entries of \<^verbatim>\<open>data\<close> are never set.  (The three other
  cases are the lemmas \<open>sender_membership_create\<close>, \<open>sender_membership_delete\<close> and
  \<open>sender_membership_update\<close>.)
\<close>

theorem pre_process_both_absent_raises:
  "chat_member_read fresh_db (- 100) 1001 = None
   \<and> get_member (Inl ClientError) = None
   \<and> pre_process fresh_db group_message (Inl ClientError) (Inr ''member'')
       = (\<lparr>users = [bot_user, ann\<lparr>role := ''user''\<rparr>], chats = [group_chat], chat_members = []\<rparr>,
          Inl AttributeError)"
  by (simp add: pre_process_def then_do_def Let_def fresh_db_def group_message_def
      user_read_def user_create_def chat_read_def chat_create_def get_member_def
      sender_membership_def chat_member_read_def bot_user_def ann_def group_chat_def)

end
